theory Spec2Isabelle
  imports Complex_Main
begin

section \<open>express-log-mongo: the format compiler, the registry and the middleware\<close>

text \<open>
  A shallow embedding of \<^verbatim>\<open>src/index.js\<close>. Strings are byte lists; a JavaScript number
  is held by its value, a rational, and the arithmetic of the program rounds as that of
  IEEE doubles does.
  An operation of the program yields an \<open>outcome\<close>: \<open>Returns v\<close> when it returns,
  \<open>Throws e\<close> when it throws, and \<open>Unmodelled\<close> where the JavaScript it would run lies
  outside the fragment of the language that this theory describes.
\<close>

subsection \<open>Values\<close>

abbreviation DQ :: char where "DQ \<equiv> CHR 0x22"
abbreviation BSL :: char where "BSL \<equiv> CHR 0x5C"
abbreviation NL :: char where "NL \<equiv> CHR 0x0A"

datatype exn = TypeError string | SyntaxError | RangeError

type_synonym 'a outcome = "(exn + 'a) option"

abbreviation Returns :: "'a \<Rightarrow> 'a outcome" where "Returns v \<equiv> Some (Inr v)"
abbreviation Throws :: "exn \<Rightarrow> 'a outcome" where "Throws e \<equiv> Some (Inl e)"
abbreviation Unmodelled :: "'a outcome" where "Unmodelled \<equiv> None"

definition and_then :: "'a outcome \<Rightarrow> ('a \<Rightarrow> 'b outcome) \<Rightarrow> 'b outcome" where
  "and_then m f = (case m of None \<Rightarrow> None | Some (Inl e) \<Rightarrow> Some (Inl e) | Some (Inr v) \<Rightarrow> f v)"

text \<open>A header value is a string or, for a multi-valued header, an array of strings.\<close>

datatype header = HString string | HArray "string list"

type_synonym hrtime = "int \<times> int"

text \<open>
  The fields of the request and of the response that the program reads or writes.
  \<open>req_startAt\<close> is \<^verbatim>\<open>req._startAt\<close>, \<open>req_remoteAddress\<close> is \<^verbatim>\<open>req._remoteAddress\<close>,
  \<open>req_connection\<close> is \<^verbatim>\<open>req.connection\<close> (when present, its \<^verbatim>\<open>remoteAddress\<close>);
  \<open>None\<close> stands for \<^verbatim>\<open>undefined\<close>. Headers are keyed by lower-case name.
\<close>

record request =
  req_method :: string
  req_originalUrl :: "string option"
  req_url :: string
  req_headers :: "string \<rightharpoonup> header"
  req_ip :: "string option"
  req_remoteAddress :: "string option"
  req_connection :: "string option option"
  req_startAt :: "hrtime option"
  req_startTime :: "int option"

record response =
  res_statusCode :: int
  res_headersSent :: "bool option"
  res_header :: "string option"
  res_headers :: "string \<rightharpoonup> header"
  res_startAt :: "hrtime option"
  res_startTime :: "int option"

text \<open>
  \<open>JNative f\<close> is a JavaScript function seen through the call \<^verbatim>\<open>f(req, res)\<close> or
  \<^verbatim>\<open>f(req, res, arg)\<close>; \<open>JBuilder ps\<close> is a function made by \<open>compile\<close>, given by the
  properties of the object literal it returns: key, token name, token argument.
\<close>

type_synonym property = "string \<times> string \<times> string option"

datatype jsvalue =
    JUndefined
  | JNull
  | JBoolean bool
  | JNumber rat
  | JString string
  | JArray "jsvalue list"
  | JObject "(string \<times> jsvalue) list"
  | JNative "request \<Rightarrow> response \<Rightarrow> string option \<Rightarrow> (exn + jsvalue) option"
  | JBuilder "property list"

fun truthy :: "jsvalue \<Rightarrow> bool" where
  "truthy JUndefined = False"
| "truthy JNull = False"
| "truthy (JBoolean b) = b"
| "truthy (JNumber n) = (n \<noteq> 0)"
| "truthy (JString s) = (s \<noteq> [])"
| "truthy (JArray vs) = True"
| "truthy (JObject ps) = True"
| "truthy (JNative f) = True"
| "truthy (JBuilder ps) = True"

fun is_function :: "jsvalue \<Rightarrow> bool" where
  "is_function (JNative f) = True"
| "is_function (JBuilder ps) = True"
| "is_function v = False"

fun is_string :: "jsvalue \<Rightarrow> bool" where
  "is_string (JString s) = True"
| "is_string v = False"

text \<open>\<^verbatim>\<open>a || b\<close>\<close>

definition or_else :: "jsvalue \<Rightarrow> jsvalue \<Rightarrow> jsvalue" where
  "or_else a b = (if truthy a then a else b)"

text \<open>\<^verbatim>\<open>v == null\<close>\<close>

fun is_nullish :: "jsvalue \<Rightarrow> bool" where
  "is_nullish JUndefined = True"
| "is_nullish JNull = True"
| "is_nullish v = False"

subsection \<open>The format compiler: from the template to the source text\<close>

text \<open>The character class \<^verbatim>\<open>[-\w]\<close> of the placeholder pattern.\<close>

definition word_chars :: string where
  "word_chars = ''abcdefghijklmnopqrstuvwxyzABCDEFGHIJKLMNOPQRSTUVWXYZ0123456789_''"

definition is_name_char :: "char \<Rightarrow> bool" where
  "is_name_char c = (c = CHR ''-'' \<or> c \<in> set word_chars)"

text \<open>\<^verbatim>\<open>format.replace(/"/g, '\\"')\<close>\<close>

definition escape_quotes :: "string \<Rightarrow> string" where
  "escape_quotes s = concat (map (\<lambda>c. if c = DQ then [BSL, DQ] else [c]) s)"

text \<open>
  The matches of \<^verbatim>\<open>/:([-\w]{2,})(?:\[([^\]]+)\])?/g\<close>, left to right and not
  overlapping: a segment is a placeholder (name, optional bracketed argument) or one
  character outside every match. Both quantifiers are greedy; the bracket group matches
  only with at least one character before a closing bracket.
\<close>

datatype segment = Lit char | Placeholder string "string option"

definition match_arg :: "string \<Rightarrow> (string \<times> string) option" where
  "match_arg s = (case s of
       [] \<Rightarrow> None
     | c # cs \<Rightarrow>
         if c = CHR ''[''
         then (let a = takeWhile (\<lambda>x. x \<noteq> CHR '']'') cs;
                   r = dropWhile (\<lambda>x. x \<noteq> CHR '']'') cs
               in if a = [] \<or> r = [] then None else Some (a, tl r))
         else None)"

lemma match_arg_length: "match_arg s = Some (a, r) \<Longrightarrow> length r < length s"
proof -
  assume m: "match_arg s = Some (a, r)"
  then obtain cs where s: "s = CHR ''['' # cs"
    and r: "r = tl (dropWhile (\<lambda>x. x \<noteq> CHR '']'') cs)"
    by (auto simp: match_arg_def Let_def split: list.splits if_splits)
  have "length r \<le> length (dropWhile (\<lambda>x. x \<noteq> CHR '']'') cs)"
    by (simp add: r)
  also have "\<dots> \<le> length cs"
    by (rule length_dropWhile_le)
  finally show ?thesis
    by (simp add: s)
qed

function scan :: "string \<Rightarrow> segment list" where
  "scan [] = []"
| "scan (c # cs) =
     (if c = CHR '':'' \<and> 2 \<le> length (takeWhile is_name_char cs)
      then (case match_arg (dropWhile is_name_char cs) of
              Some (a, r) \<Rightarrow> Placeholder (takeWhile is_name_char cs) (Some a) # scan r
            | None \<Rightarrow>
                Placeholder (takeWhile is_name_char cs) None # scan (dropWhile is_name_char cs))
      else Lit c # scan cs)"
  by pat_completeness auto
termination
proof (relation "measure length")
  show "wf (measure length)" by simp
next
  fix c :: char and cs x2 x y
  assume "match_arg (dropWhile is_name_char cs) = Some x2" "(x, y) = x2"
  then have "length y < length (dropWhile is_name_char cs)"
    using match_arg_length by metis
  then show "(y, c # cs) \<in> measure length"
    using length_dropWhile_le [of is_name_char cs] by simp
next
  fix c :: char and cs
  show "(dropWhile is_name_char cs, c # cs) \<in> measure length"
    using length_dropWhile_le [of is_name_char cs] by simp
next
  fix c :: char and cs
  show "(cs, c # cs) \<in> measure length" by simp
qed

text \<open>
  \<^verbatim>\<open>JSON.stringify\<close> of a string: the quoted string, with the quote, the backslash and the
  control characters escaped.
\<close>

definition hex_digit :: "nat \<Rightarrow> char" where
  "hex_digit n = ''0123456789abcdef'' ! (n mod 16)"

definition json_escape :: "char \<Rightarrow> string" where
  "json_escape c =
     (if c = DQ then [BSL, DQ]
      else if c = BSL then [BSL, BSL]
      else if c = CHR 0x08 then [BSL, CHR ''b'']
      else if c = CHR 0x09 then [BSL, CHR ''t'']
      else if c = CHR 0x0A then [BSL, CHR ''n'']
      else if c = CHR 0x0C then [BSL, CHR ''f'']
      else if c = CHR 0x0D then [BSL, CHR ''r'']
      else if (of_char c :: nat) < 32
      then [BSL, CHR ''u'', CHR ''0'', CHR ''0'',
            hex_digit (of_char c div 16), hex_digit (of_char c)]
      else [c])"

definition JSON_stringify :: "string \<Rightarrow> string" where
  "JSON_stringify s = [DQ] @ concat (map json_escape s) @ [DQ]"

text \<open>The replacement function of \<open>compile\<close>, and the text an unmatched character keeps.\<close>

definition replacement :: "string \<Rightarrow> string option \<Rightarrow> string" where
  "replacement name arg =
     (let tokenArguments = ''req, res'' @ (case arg of None \<Rightarrow> [] | Some a \<Rightarrow> '', '' @ JSON_stringify a);
          tokenFunction = ''tokens['' @ JSON_stringify name @ '']''
      in [NL] @ ''    '' @ [DQ] @ name @ [DQ] @ '': '' @ tokenFunction @ ''('' @ tokenArguments @ ''),'')"

fun render :: "segment \<Rightarrow> string" where
  "render (Lit c) = [c]"
| "render (Placeholder name arg) = replacement name arg"

definition function_head :: string where
  "function_head = ''  '' @ [DQ] @ ''use strict'' @ [DQ, NL] @ ''  return ''"

text \<open>
  The text handed to \<^verbatim>\<open>new Function\<close>: the head, an opening brace, the template with its
  placeholders replaced, the last character cut off, a closing brace.
\<close>

definition compile_js :: "string \<Rightarrow> string" where
  "compile_js format =
     (let fmt = escape_quotes format;
          js = function_head @ ''{'' @ concat (map render (scan fmt))
      in butlast js @ ''}'')"

subsection \<open>The format compiler: reading the source text back\<close>

text \<open>
  \<^verbatim>\<open>new Function('tokens, req, res', js)\<close> parses \<open>js\<close> as a function body. The fragment
  described here, read as ECMAScript 2015 or later (an object literal may define a key
  twice, and the later definition gives the value), is the one \<open>compile\<close> aims at: the head, then an object literal whose
  properties have the shape \<^verbatim>\<open>"key": tokens["name"](req, res)\<close> or
  \<^verbatim>\<open>"key": tokens["name"](req, res, "arg")\<close>, separated by commas (a trailing comma is
  allowed), with white space between them. A string literal is read up to its closing
  quote and is in the fragment when it has no backslash and no control character. A text
  that no JavaScript parser accepts is a \<open>SyntaxError\<close> where this is decided here (a \<open>-\<close>
  where a property must start, an object literal that never closes, a body that is
  \<^verbatim>\<open>return }\<close>); every other text is \<open>Unmodelled\<close>. The key \<^verbatim>\<open>__proto__\<close> sets the
  prototype instead of a property and is left out of the fragment.
\<close>

definition is_js_space :: "char \<Rightarrow> bool" where
  "is_js_space c = (c \<in> set [CHR 0x20, CHR 0x09, CHR 0x0A, CHR 0x0B, CHR 0x0C, CHR 0x0D])"

definition plain_char :: "char \<Rightarrow> bool" where
  "plain_char c = (c \<noteq> DQ \<and> c \<noteq> BSL \<and> 32 \<le> (of_char c :: nat))"

fun strip_prefix :: "string \<Rightarrow> string \<Rightarrow> string option" where
  "strip_prefix [] s = Some s"
| "strip_prefix (p # ps) [] = None"
| "strip_prefix (p # ps) (c # cs) = (if p = c then strip_prefix ps cs else None)"

definition read_string :: "string \<Rightarrow> (string \<times> string) option" where
  "read_string s =
     (let body = takeWhile (\<lambda>c. c \<noteq> DQ) s;
          rest = dropWhile (\<lambda>c. c \<noteq> DQ) s
      in if rest = [] \<or> \<not> list_all plain_char body then None else Some (body, tl rest))"

definition parse_property :: "string \<Rightarrow> (property \<times> string) option" where
  "parse_property s =
     Option.bind (read_string s) (\<lambda>(key, s1).
     if key = ''__proto__'' then None else
     Option.bind (strip_prefix ('': tokens['' @ [DQ]) s1) (\<lambda>s2.
     Option.bind (read_string s2) (\<lambda>(name, s3).
     Option.bind (strip_prefix ''](req, res'' s3) (\<lambda>s4.
       case strip_prefix '')'' s4 of
         Some s5 \<Rightarrow> Some ((key, name, None), s5)
       | None \<Rightarrow>
           Option.bind (strip_prefix ('', '' @ [DQ]) s4) (\<lambda>s5.
           Option.bind (read_string s5) (\<lambda>(arg, s6).
           Option.bind (strip_prefix '')'' s6) (\<lambda>s7.
             Some ((key, name, Some arg), s7))))))))"

lemma strip_prefix_length: "strip_prefix p s = Some r \<Longrightarrow> length r \<le> length s"
  by (induction p s rule: strip_prefix.induct) (auto split: if_splits)

lemma read_string_length: "read_string s = Some (b, r) \<Longrightarrow> length r < length s"
proof -
  assume "read_string s = Some (b, r)"
  then have r: "r = tl (dropWhile (\<lambda>c. c \<noteq> DQ) s)" and ne: "dropWhile (\<lambda>c. c \<noteq> DQ) s \<noteq> []"
    by (auto simp: read_string_def Let_def split: if_splits)
  from ne have "length r < length (dropWhile (\<lambda>c. c \<noteq> DQ) s)"
    by (simp add: r)
  also have "\<dots> \<le> length s"
    by (rule length_dropWhile_le)
  finally show ?thesis .
qed

lemma parse_property_length: "parse_property s = Some (p, r) \<Longrightarrow> length r < length s"
proof -
  assume a: "parse_property s = Some (p, r)"
  then obtain key s1 where k: "read_string s = Some (key, s1)"
    by (auto simp: parse_property_def split: Option.bind_splits)
  with a obtain s2 name s3 s4 where
    s2: "strip_prefix ('': tokens['' @ [DQ]) s1 = Some s2" and
    n: "read_string s2 = Some (name, s3)" and
    s4: "strip_prefix ''](req, res'' s3 = Some s4"
    by (auto simp: parse_property_def split: Option.bind_splits if_splits)
  have l4: "length s4 < length s"
    using read_string_length [OF k] strip_prefix_length [OF s2] read_string_length [OF n]
      strip_prefix_length [OF s4] by linarith
  show ?thesis
  proof (cases "strip_prefix '')'' s4")
    case (Some s5)
    with a k s2 n s4 have "r = s5"
      by (auto simp: parse_property_def split: if_splits)
    with strip_prefix_length [OF Some] l4 show ?thesis by simp
  next
    case None
    with a k s2 n s4 obtain s5 arg s6 where
      s5: "strip_prefix ('', '' @ [DQ]) s4 = Some s5" and
      g: "read_string s5 = Some (arg, s6)" and
      s7: "strip_prefix '')'' s6 = Some r"
      by (auto simp: parse_property_def split: Option.bind_splits if_splits)
    show ?thesis
      using l4 strip_prefix_length [OF s5] read_string_length [OF g] strip_prefix_length [OF s7]
      by linarith
  qed
qed

function parse_properties :: "string \<Rightarrow> property list outcome" where
  "parse_properties [] = Throws SyntaxError"
| "parse_properties (c # cs) =
     (if is_js_space c then parse_properties cs
      else if c = CHR ''}'' then (if list_all is_js_space cs then Returns [] else Unmodelled)
      else if c = DQ then
        (case parse_property cs of
           None \<Rightarrow> Unmodelled
         | Some (p, rest) \<Rightarrow>
             (case rest of
                [] \<Rightarrow> Throws SyntaxError
              | d # ds \<Rightarrow>
                  if d = CHR '','' then and_then (parse_properties ds) (\<lambda>ps. Returns (p # ps))
                  else if d = CHR ''}''
                  then (if list_all is_js_space ds then Returns [p] else Unmodelled)
                  else Unmodelled))
      else if c = CHR ''-'' then Throws SyntaxError
      else Unmodelled)"
  by pat_completeness auto
termination
proof (relation "measure length")
  show "wf (measure length)" by simp
next
  fix c :: char and cs
  show "(cs, c # cs) \<in> measure length" by simp
next
  fix c :: char and cs x2 p rest d ds
  assume "parse_property cs = Some x2" "(p, rest) = x2" "rest = d # ds"
  then have "length (d # ds) < length cs"
    using parse_property_length by metis
  then show "(ds, c # cs) \<in> measure length" by simp
qed

definition new_Function :: "string \<Rightarrow> jsvalue outcome" where
  "new_Function body =
     (case strip_prefix function_head body of
        None \<Rightarrow> Unmodelled
      | Some rest \<Rightarrow>
          (case strip_prefix ''{'' rest of
             Some ps \<Rightarrow> and_then (parse_properties ps) (\<lambda>ps. Returns (JBuilder ps))
           | None \<Rightarrow> if rest = ''}'' then Throws SyntaxError else Unmodelled))"

definition compile :: "jsvalue \<Rightarrow> jsvalue outcome" where
  "compile format =
     (case format of
        JString s \<Rightarrow> new_Function (compile_js s)
      | _ \<Rightarrow> Throws (TypeError ''argument format must be a string''))"

subsection \<open>The registry and the call of a compiled builder\<close>

text \<open>
  The registry is the exported function object \<^verbatim>\<open>expressMongo\<close>, read as the mapping from
  a property name to the value \<^verbatim>\<open>expressMongo[name]\<close>; a name that yields \<^verbatim>\<open>undefined\<close>
  is absent from the map.
\<close>

type_synonym registry = "string \<rightharpoonup> jsvalue"

definition get :: "registry \<Rightarrow> string \<Rightarrow> jsvalue" where
  "get tokens name = (case tokens name of None \<Rightarrow> JUndefined | Some v \<Rightarrow> v)"

text \<open>\<^verbatim>\<open>tokens[name](req, res)\<close> and \<^verbatim>\<open>tokens[name](req, res, arg)\<close>\<close>

definition call_token ::
  "registry \<Rightarrow> request \<Rightarrow> response \<Rightarrow> string \<Rightarrow> string option \<Rightarrow> jsvalue outcome" where
  "call_token tokens req res name arg =
     (case get tokens name of
        JNative f \<Rightarrow> f req res arg
      | JBuilder ps \<Rightarrow> Unmodelled
      | _ \<Rightarrow> Throws (TypeError ''tokens[name] is not a function''))"

text \<open>
  A property definition of an object literal: a key defined before keeps its place and
  takes the new value, a new key is added.
\<close>

fun set_property :: "(string \<times> jsvalue) list \<Rightarrow> string \<Rightarrow> jsvalue \<Rightarrow> (string \<times> jsvalue) list" where
  "set_property [] k v = [(k, v)]"
| "set_property ((k', v') # ps) k v =
     (if k' = k then (k, v) # ps else (k', v') # set_property ps k v)"

fun eval_properties ::
  "registry \<Rightarrow> request \<Rightarrow> response \<Rightarrow> property list \<Rightarrow> (string \<times> jsvalue) list \<Rightarrow> jsvalue outcome" where
  "eval_properties tokens req res [] obj = Returns (JObject obj)"
| "eval_properties tokens req res ((key, name, arg) # ps) obj =
     and_then (call_token tokens req res name arg)
       (\<lambda>v. eval_properties tokens req res ps (set_property obj key v))"

text \<open>The call \<^verbatim>\<open>f(tokens, req, res)\<close> of a value \<open>f\<close> of the registry used as a format function.\<close>

fun call_format :: "jsvalue \<Rightarrow> registry \<Rightarrow> request \<Rightarrow> response \<Rightarrow> jsvalue outcome" where
  "call_format (JBuilder ps) tokens req res = eval_properties tokens req res ps []"
| "call_format (JNative f) tokens req res = Unmodelled"
| "call_format v tokens req res = Throws (TypeError ''formatLine is not a function'')"

subsection \<open>Numbers\<close>

text \<open>
  A number of the program is an IEEE 754 binary64 value. A finite one is written here
  \<open>m * 2^e\<close>, with integers \<open>m\<close> and \<open>e\<close>, and \<open>JNumber\<close> holds its value. An operation
  computes the exact result and rounds it to 53 significant bits, to the nearest value,
  a tie to the even mantissa. The range of the exponent is not modelled (overflow to an
  infinity, subnormal numbers), nor are \<^verbatim>\<open>NaN\<close> and the sign of zero.
\<close>

type_synonym double = "int \<times> int"

definition double_value :: "double \<Rightarrow> rat" where
  "double_value d = of_int (fst d) * 2 powi (snd d)"

text \<open>The number of bits of a positive integer.\<close>

fun bit_length :: "int \<Rightarrow> nat" where
  "bit_length n = (if n \<le> 0 then 0 else Suc (bit_length (n div 2)))"

declare bit_length.simps [simp del]

text \<open>\<open>a / b\<close> to the nearest integer, for \<open>0 < b\<close>; a tie goes to the even one.\<close>

definition half_even :: "int \<Rightarrow> int \<Rightarrow> int" where
  "half_even a b =
     (let q = a div b; r = a mod b
      in if 2 * r < b then q else if b < 2 * r then q + 1 else if even q then q else q + 1)"

definition round53 :: "double \<Rightarrow> double" where
  "round53 d =
     (let k = int (bit_length \<bar>fst d\<bar>) - 53
      in if k \<le> 0 then d else (half_even (fst d) (2 ^ nat k), snd d + k))"

definition double_of_int :: "int \<Rightarrow> double" where
  "double_of_int n = round53 (n, 0)"

definition double_times :: "double \<Rightarrow> double \<Rightarrow> double" where
  "double_times a b = round53 (fst a * fst b, snd a + snd b)"

definition double_plus :: "double \<Rightarrow> double \<Rightarrow> double" where
  "double_plus a b =
     (let e = min (snd a) (snd b)
      in round53 (fst a * 2 ^ nat (snd a - e) + fst b * 2 ^ nat (snd b - e), e))"

definition double_minus :: "double \<Rightarrow> double \<Rightarrow> double" where
  "double_minus a b = double_plus a (- fst b, snd b)"

text \<open>
  The double that a decimal numeral \<open>n / 10^f\<close> denotes, in a literal of the program such
  as \<^verbatim>\<open>1e-6\<close> and in the string that \<^verbatim>\<open>parseFloat\<close> reads: the nearest one. The quotient
  is scaled by \<open>2^k'\<close> into the interval from \<open>2^52\<close> to \<open>2^53\<close> and rounded there.
\<close>

definition double_of_decimal :: "int \<Rightarrow> nat \<Rightarrow> double" where
  "double_of_decimal n f =
     (if n = 0 then (0, 0)
      else let k = 53 + int (bit_length (10 ^ f)) - int (bit_length \<bar>n\<bar>);
               k' = (if 2 ^ 53 * (10 ^ f * 2 ^ nat (- k)) \<le> \<bar>n\<bar> * 2 ^ nat k then k - 1 else k)
           in (sgn n * half_even (\<bar>n\<bar> * 2 ^ nat k') (10 ^ f * 2 ^ nat (- k')), - k'))"

subsection \<open>The built-in tokens\<close>

type_synonym resolver = "request \<Rightarrow> response \<Rightarrow> string option \<Rightarrow> jsvalue outcome"

definition option_value :: "string option \<Rightarrow> jsvalue" where
  "option_value x = (case x of None \<Rightarrow> JUndefined | Some s \<Rightarrow> JString s)"

fun join :: "string list \<Rightarrow> string" where
  "join [] = []"
| "join [x] = x"
| "join (x # y # ys) = x @ '', '' @ join (y # ys)"

text \<open>\<^verbatim>\<open>Array.isArray(header) ? header.join(', ') : header\<close>\<close>

definition header_value :: "header option \<Rightarrow> jsvalue" where
  "header_value h =
     (case h of None \<Rightarrow> JUndefined | Some (HString v) \<Rightarrow> JString v | Some (HArray vs) \<Rightarrow> JString (join vs))"

text \<open>A header as the request holds it.\<close>

definition raw_header :: "header option \<Rightarrow> jsvalue" where
  "raw_header h =
     (case h of None \<Rightarrow> JUndefined | Some (HString v) \<Rightarrow> JString v
      | Some (HArray vs) \<Rightarrow> JArray (map JString vs))"

text \<open>\<^verbatim>\<open>toLowerCase\<close>, on ASCII strings.\<close>

definition lower_char :: "char \<Rightarrow> char" where
  "lower_char c =
     (case map_of (zip ''ABCDEFGHIJKLMNOPQRSTUVWXYZ'' ''abcdefghijklmnopqrstuvwxyz'') c of
        None \<Rightarrow> c | Some l \<Rightarrow> l)"

definition toLowerCase :: "string \<Rightarrow> string option" where
  "toLowerCase s = (if list_all (\<lambda>c. (of_char c :: nat) < 128) s then Some (map lower_char s) else None)"

definition getUrlToken :: resolver where
  "getUrlToken req res arg =
     Returns (or_else (option_value (req_originalUrl req)) (JString (req_url req)))"

definition getMethodToken :: resolver where
  "getMethodToken req res arg = Returns (JString (req_method req))"

text \<open>
  \<^verbatim>\<open>parseFloat(ms.toFixed(digits))\<close>. \<open>toFixed\<close> takes its argument to an integer (here: a
  string of decimal digits is in the fragment), throws a \<open>RangeError\<close> outside 0..100,
  and prints \<open>n / 10^f\<close> for the integer \<open>n\<close> nearest to \<open>x * 10^f\<close>, the larger one on a
  tie, the sign of a negative \<open>x\<close> apart, where \<open>x\<close> is the exact value of the double; from
  \<open>10^21\<close> on it prints the number as \<open>toString\<close> does. \<open>parseFloat\<close> reads the numeral
  back, as the double nearest to it.
\<close>

definition digits_value :: "string \<Rightarrow> nat option" where
  "digits_value s =
     (if s \<noteq> [] \<and> list_all (\<lambda>c. c \<in> set ''0123456789'') s
      then Some (foldl (\<lambda>a c. 10 * a + (of_char c - 48)) 0 s)
      else None)"

definition round_fixed :: "double \<Rightarrow> nat \<Rightarrow> double" where
  "round_fixed x f =
     (let v = double_value x
      in if 10 ^ 21 \<le> \<bar>v\<bar> then x
         else if v < 0 then double_of_decimal (- \<lfloor>- v * 10 ^ f + 1 / 2\<rfloor>) f
         else double_of_decimal \<lfloor>v * 10 ^ f + 1 / 2\<rfloor> f)"

definition toFixed_parseFloat :: "double \<Rightarrow> string option \<Rightarrow> jsvalue outcome" where
  "toFixed_parseFloat x digits =
     (case digits of
        None \<Rightarrow> Returns (JNumber (double_value (round_fixed x 3)))
      | Some d \<Rightarrow>
          (case digits_value d of
             None \<Rightarrow> Unmodelled
           | Some f \<Rightarrow>
               if 100 < f then Throws RangeError
               else Returns (JNumber (double_value (round_fixed x f)))))"

text \<open>
  \<^verbatim>\<open>(res._startAt[0] - req._startAt[0]) * 1e3 + (res._startAt[1] - req._startAt[1]) * 1e-6\<close>,
  each operation on doubles.
\<close>

definition ms :: "hrtime \<Rightarrow> hrtime \<Rightarrow> double" where
  "ms req_at res_at =
     double_plus
       (double_times (double_minus (double_of_int (fst res_at)) (double_of_int (fst req_at)))
          (double_of_int 1000))
       (double_times (double_minus (double_of_int (snd res_at)) (double_of_int (snd req_at)))
          (double_of_decimal 1 6))"

definition getResponseTimeToken :: resolver where
  "getResponseTimeToken req res digits =
     (case (req_startAt req, res_startAt res) of
        (Some req_at, Some res_at) \<Rightarrow> toFixed_parseFloat (ms req_at res_at) digits
      | _ \<Rightarrow> Returns JUndefined)"





definition headersSent :: "response \<Rightarrow> bool" where
  "headersSent res =
     (case res_headersSent res of
        None \<Rightarrow> (case res_header res of None \<Rightarrow> False | Some h \<Rightarrow> h \<noteq> [])
      | Some b \<Rightarrow> b)"

definition getStatusToken :: resolver where
  "getStatusToken req res arg =
     Returns (if headersSent res then JNumber (of_int (res_statusCode res)) else JUndefined)"

definition getReferrerToken :: resolver where
  "getReferrerToken req res arg =
     Returns (or_else (raw_header (req_headers req ''referer'')) (raw_header (req_headers req ''referrer'')))"

definition getip :: "request \<Rightarrow> string option" where
  "getip req =
     (let connection = (case req_connection req of None \<Rightarrow> JUndefined | Some a \<Rightarrow> option_value a);
          v = or_else (or_else (or_else (option_value (req_ip req)) (option_value (req_remoteAddress req)))
                connection) JUndefined
      in case v of JString a \<Rightarrow> Some a | _ \<Rightarrow> None)"

definition getRemoteAddrToken :: resolver where
  "getRemoteAddrToken req res arg = Returns (option_value (getip req))"

definition getUserAgentToken :: resolver where
  "getUserAgentToken req res arg = Returns (raw_header (req_headers req ''user-agent''))"

definition getRequestToken :: resolver where
  "getRequestToken req res field =
     (case field of
        None \<Rightarrow> Throws (TypeError ''field is undefined'')
      | Some f \<Rightarrow>
          (case toLowerCase f of
             None \<Rightarrow> Unmodelled
           | Some l \<Rightarrow> Returns (header_value (req_headers req l))))"

definition getResponseHeader :: resolver where
  "getResponseHeader req res field =
     (if \<not> headersSent res then Returns JUndefined
      else (case field of
              None \<Rightarrow> Unmodelled
            | Some f \<Rightarrow>
                (case toLowerCase f of
                   None \<Rightarrow> Unmodelled
                 | Some l \<Rightarrow> Returns (header_value (res_headers res l)))))"

subsection \<open>Registration and lookup\<close>

text \<open>
  \<^verbatim>\<open>expressMongo[name] = value\<close>, in a strict-mode function. The function object has the
  read-only properties \<^verbatim>\<open>name\<close> and \<^verbatim>\<open>length\<close> and inherits the accessors \<^verbatim>\<open>caller\<close> and
  \<^verbatim>\<open>arguments\<close>, whose setter throws: an assignment to one of the four throws a
  \<open>TypeError\<close>. The accessor \<^verbatim>\<open>__proto__\<close> ignores a value that is neither an object nor
  \<^verbatim>\<open>null\<close>, and otherwise replaces the prototype, which is outside the fragment.
\<close>

definition readonly_properties :: "string list" where
  "readonly_properties = [''name'', ''length'', ''caller'', ''arguments'']"

definition function_properties :: "string list" where
  "function_properties = readonly_properties @ [''__proto__'']"

fun is_primitive :: "jsvalue \<Rightarrow> bool" where
  "is_primitive JUndefined = True"
| "is_primitive (JBoolean b) = True"
| "is_primitive (JNumber n) = True"
| "is_primitive (JString s) = True"
| "is_primitive v = False"

definition assign :: "registry \<Rightarrow> string \<Rightarrow> jsvalue \<Rightarrow> registry outcome" where
  "assign reg name v =
     (if name \<in> set readonly_properties
      then Throws (TypeError ''Cannot assign to read only property'')
      else if name = ''__proto__''
      then (if is_primitive v then Returns reg else Unmodelled)
      else Returns (reg(name \<mapsto> v)))"

definition format :: "string \<Rightarrow> jsvalue \<Rightarrow> registry \<Rightarrow> registry outcome" where
  "format name fmt reg = assign reg name fmt"

definition token :: "string \<Rightarrow> jsvalue \<Rightarrow> registry \<Rightarrow> registry outcome" where
  "token name fn reg = assign reg name fn"

text \<open>\<open>getFormatFunction\<close>, for a name that is a string.\<close>

definition getFormatFunction :: "registry \<Rightarrow> jsvalue \<Rightarrow> jsvalue outcome" where
  "getFormatFunction reg name =
     (case name of
        JString n \<Rightarrow>
          (let fmt = or_else (get reg n) (or_else name (get reg ''default''))
           in if \<not> is_function fmt then compile fmt else Returns fmt)
      | _ \<Rightarrow> Unmodelled)"

text \<open>
  The registry once the module is loaded: the three named formats, the built-in tokens,
  the four functions the module exports as properties of the same object, and what a
  function object has of its own or inherits from \<^verbatim>\<open>Function.prototype\<close> and
  \<^verbatim>\<open>Object.prototype\<close>. Called as a token, an exported or inherited function is outside the
  fragment. Reading \<^verbatim>\<open>caller\<close> or \<^verbatim>\<open>arguments\<close> throws a \<open>TypeError\<close>, as the call of an
  absent name does: the two are absent from the map. The tokens \<^verbatim>\<open>date\<close>,
  \<^verbatim>\<open>remote-user\<close> and \<^verbatim>\<open>http-version\<close> read the wall clock, the \<^verbatim>\<open>basic-auth\<close> package and
  a float parser; they are parameters here.
\<close>

definition exported_function :: resolver where
  "exported_function req res arg = Unmodelled"

definition inherited_function :: resolver where
  "inherited_function req res arg = Unmodelled"

definition default_format :: string where
  "default_format = '':date :method :url :status :remote-addr :response-time :http-version :remote-user :res[content-length] :referrer :user-agent''"

definition short_format :: string where
  "short_format = '':remote-addr :remote-user :method :url :http-version :status :res[content-length] :response-time''"

definition tiny_format :: string where
  "tiny_format = '':method :url :status :res[content-length] :response-time''"

definition module_registry :: "resolver \<Rightarrow> resolver \<Rightarrow> resolver \<Rightarrow> registry" where
  "module_registry getDateToken getRemoteUserToken getHttpVersionToken =
     [''default'' \<mapsto> JString default_format,
      ''short'' \<mapsto> JString short_format,
      ''tiny'' \<mapsto> JString tiny_format,
      ''url'' \<mapsto> JNative getUrlToken,
      ''method'' \<mapsto> JNative getMethodToken,
      ''response-time'' \<mapsto> JNative getResponseTimeToken,
      ''date'' \<mapsto> JNative getDateToken,
      ''status'' \<mapsto> JNative getStatusToken,
      ''referrer'' \<mapsto> JNative getReferrerToken,
      ''remote-addr'' \<mapsto> JNative getRemoteAddrToken,
      ''remote-user'' \<mapsto> JNative getRemoteUserToken,
      ''http-version'' \<mapsto> JNative getHttpVersionToken,
      ''user-agent'' \<mapsto> JNative getUserAgentToken,
      ''req'' \<mapsto> JNative getRequestToken,
      ''res'' \<mapsto> JNative getResponseHeader,
      ''compile'' \<mapsto> JNative exported_function,
      ''format'' \<mapsto> JNative exported_function,
      ''token'' \<mapsto> JNative exported_function,
      ''retrieveDB'' \<mapsto> JNative exported_function,
      ''length'' \<mapsto> JNumber 2,
      ''name'' \<mapsto> JString ''expressMongo'',
      ''prototype'' \<mapsto> JObject [],
      ''apply'' \<mapsto> JNative inherited_function,
      ''bind'' \<mapsto> JNative inherited_function,
      ''call'' \<mapsto> JNative inherited_function,
      ''constructor'' \<mapsto> JNative inherited_function,
      ''toString'' \<mapsto> JNative inherited_function,
      ''toLocaleString'' \<mapsto> JNative inherited_function,
      ''valueOf'' \<mapsto> JNative inherited_function,
      ''hasOwnProperty'' \<mapsto> JNative inherited_function,
      ''isPrototypeOf'' \<mapsto> JNative inherited_function,
      ''propertyIsEnumerable'' \<mapsto> JNative inherited_function,
      ''__defineGetter__'' \<mapsto> JNative inherited_function,
      ''__defineSetter__'' \<mapsto> JNative inherited_function,
      ''__lookupGetter__'' \<mapsto> JNative inherited_function,
      ''__lookupSetter__'' \<mapsto> JNative inherited_function,
      ''__proto__'' \<mapsto> JNative inherited_function]"

subsection \<open>The middleware\<close>

text \<open>
  \<open>v.k\<close> for a value \<open>v\<close> that is neither \<^verbatim>\<open>null\<close> nor \<^verbatim>\<open>undefined\<close> and a key among
  \<^verbatim>\<open>url\<close>, \<^verbatim>\<open>db\<close>, \<^verbatim>\<open>collection\<close>, \<^verbatim>\<open>immediate\<close>, \<^verbatim>\<open>skip\<close>.
\<close>

fun field :: "jsvalue \<Rightarrow> string \<Rightarrow> jsvalue" where
  "field (JObject ps) k = (case map_of ps k of None \<Rightarrow> JUndefined | Some v \<Rightarrow> v)"
| "field v k = JUndefined"

text \<open>
  The format argument of \<open>expressMongo\<close>: a value, or a format function written by the
  caller, which is called with the registry, the request and the response.
\<close>

datatype format_arg =
    Fmt jsvalue
  | FmtFunction "registry \<Rightarrow> request \<Rightarrow> response \<Rightarrow> (exn + jsvalue) option"

text \<open>What the closure \<open>logger\<close> keeps of a call of \<open>expressMongo\<close>.\<close>

record middleware =
  formatLine :: "registry \<Rightarrow> request \<Rightarrow> response \<Rightarrow> (exn + jsvalue) option"
  opts :: jsvalue
  immediate :: jsvalue
  skip :: jsvalue
  deprecated :: bool

definition expressMongo :: "format_arg \<Rightarrow> jsvalue \<Rightarrow> registry \<Rightarrow> (middleware \<times> registry) outcome" where
  "expressMongo fmt0 options reg =
     (let opts = or_else options (JObject []);
          warn = (field opts ''url'' = JUndefined \<or> field opts ''db'' = JUndefined
                  \<or> field opts ''collection'' = JUndefined);
          fmt = (case fmt0 of Fmt JUndefined \<Rightarrow> Fmt (JString ''default'') | _ \<Rightarrow> fmt0);
          immediate = field opts ''immediate'';
          skip = or_else (field opts ''skip'') (JBoolean False);
          formatLine =
            (case fmt of
               FmtFunction f \<Rightarrow> Returns f
             | Fmt v \<Rightarrow>
                 if \<not> is_function v
                 then and_then (getFormatFunction reg v) (\<lambda>g. Returns (call_format g))
                 else Returns (call_format v))
      in and_then formatLine (\<lambda>f.
         and_then (assign reg ''options'' options) (\<lambda>reg'.
           Returns (\<lparr>formatLine = f, opts = opts, immediate = immediate, skip = skip,
                     deprecated = warn\<rparr>, reg'))))"

text \<open>A call \<^verbatim>\<open>insertDB(url, db, collection, items)\<close> and a call \<^verbatim>\<open>findDB(url, db, collection, opts)\<close>.\<close>

type_synonym insert_call = "jsvalue \<times> jsvalue \<times> jsvalue \<times> jsvalue list"
type_synonym find_call = "jsvalue \<times> jsvalue \<times> jsvalue \<times> jsvalue"

text \<open>\<^verbatim>\<open>skip(req, res)\<close>, as a condition.\<close>

definition call_skip :: "jsvalue \<Rightarrow> request \<Rightarrow> response \<Rightarrow> bool outcome" where
  "call_skip f req res =
     (case f of
        JNative g \<Rightarrow> and_then (g req res None) (\<lambda>v. Returns (truthy v))
      | JBuilder ps \<Rightarrow> Unmodelled
      | _ \<Rightarrow> Throws (TypeError ''skip is not a function''))"

text \<open>\<open>logRequest\<close> returns the calls of \<open>insertDB\<close> it made.\<close>

definition logRequest :: "middleware \<Rightarrow> registry \<Rightarrow> request \<Rightarrow> response \<Rightarrow> insert_call list outcome" where
  "logRequest mw tokens req res =
     and_then (if skip mw \<noteq> JBoolean False then call_skip (skip mw) req res else Returns False)
       (\<lambda>skipped.
          if skipped then Returns []
          else and_then (formatLine mw tokens req res) (\<lambda>line.
            if is_nullish line then Returns []
            else Returns [(field (opts mw) ''url'', field (opts mw) ''db'',
                           field (opts mw) ''collection'', [line])]))"

text \<open>The two clocks, as read by one call of \<open>recordStartTime\<close>.\<close>

record clock =
  hrtime :: hrtime
  date :: int

definition recordStartTime_req :: "clock \<Rightarrow> request \<Rightarrow> request" where
  "recordStartTime_req now req = req\<lparr>req_startAt := Some (hrtime now), req_startTime := Some (date now)\<rparr>"

definition recordStartTime_res :: "clock \<Rightarrow> response \<Rightarrow> response" where
  "recordStartTime_res now res = res\<lparr>res_startAt := Some (hrtime now), res_startTime := Some (date now)\<rparr>"

text \<open>
  One request passing through \<open>logger\<close>: the request and the response as the middleware
  leaves them, the calls of \<open>insertDB\<close> so far, and whether the listeners for the headers and
  for the end of the response are registered and still waiting.
\<close>

record exchange =
  ex_req :: request
  ex_res :: response
  ex_inserts :: "insert_call list"
  ex_onHeaders :: bool
  ex_onFinished :: bool

text \<open>The request and the response when \<open>logger\<close> has recorded the start of the request.\<close>

definition arrival :: "clock \<Rightarrow> request \<Rightarrow> response \<Rightarrow> request \<times> response" where
  "arrival now req res =
     (let req1 = req\<lparr>req_startAt := None, req_startTime := None\<rparr>;
          req2 = req1\<lparr>req_remoteAddress := getip req1\<rparr>;
          res1 = res\<lparr>res_startAt := None, res_startTime := None\<rparr>
      in (recordStartTime_req now req2, res1))"

definition logger :: "middleware \<Rightarrow> registry \<Rightarrow> clock \<Rightarrow> request \<Rightarrow> response \<Rightarrow> exchange outcome" where
  "logger mw tokens now req res =
     (case arrival now req res of
        (req', res') \<Rightarrow>
          if truthy (immediate mw)
          then and_then (logRequest mw tokens req' res') (\<lambda>calls.
                 Returns \<lparr>ex_req = req', ex_res = res', ex_inserts = calls,
                          ex_onHeaders = False, ex_onFinished = False\<rparr>)
          else Returns \<lparr>ex_req = req', ex_res = res', ex_inserts = [],
                        ex_onHeaders = True, ex_onFinished = True\<rparr>)"

text \<open>The response is about to write its headers: the listener of \<^verbatim>\<open>onHeaders\<close> runs once.\<close>

definition headers_event :: "clock \<Rightarrow> exchange \<Rightarrow> exchange" where
  "headers_event now ex =
     (if ex_onHeaders ex
      then ex\<lparr>ex_res := recordStartTime_res now (ex_res ex), ex_onHeaders := False\<rparr>
      else ex)"

text \<open>The response has finished: the listener of \<^verbatim>\<open>onFinished\<close> runs once.\<close>

definition finished_event :: "middleware \<Rightarrow> registry \<Rightarrow> exchange \<Rightarrow> exchange outcome" where
  "finished_event mw tokens ex =
     (if ex_onFinished ex
      then and_then (logRequest mw tokens (ex_req ex) (ex_res ex)) (\<lambda>calls.
             Returns (ex\<lparr>ex_inserts := ex_inserts ex @ calls, ex_onFinished := False\<rparr>))
      else Returns ex)"

text \<open>\<open>retrieveDB\<close> returns the call of \<open>findDB\<close> it makes.\<close>

definition retrieveDB :: "registry \<Rightarrow> jsvalue \<Rightarrow> find_call outcome" where
  "retrieveDB reg options =
     (let opts = get reg ''options''
      in if is_nullish opts then Throws (TypeError ''opts is undefined'')
         else Returns (field opts ''url'', field opts ''db'', field opts ''collection'', options))"

subsection \<open>Templates of placeholders and white space\<close>

text \<open>
  The placeholders of a template, in order, and the property of the object literal that
  \<open>compile\<close> writes for each. A template is \<open>simple\<close> when every character outside its
  placeholders is white space of JavaScript, no placeholder is named \<^verbatim>\<open>__proto__\<close>, and
  every bracketed argument is free of quotes, backslashes and control characters.
\<close>

fun placeholders :: "segment list \<Rightarrow> (string \<times> string option) list" where
  "placeholders [] = []"
| "placeholders (Lit c # gs) = placeholders gs"
| "placeholders (Placeholder name arg # gs) = (name, arg) # placeholders gs"

definition template_placeholders :: "string \<Rightarrow> (string \<times> string option) list" where
  "template_placeholders template = placeholders (scan (escape_quotes template))"

fun property_of :: "string \<times> string option \<Rightarrow> property" where
  "property_of (name, arg) = (name, name, arg)"

definition simple_segment :: "segment \<Rightarrow> bool" where
  "simple_segment g =
     (case g of
        Lit c \<Rightarrow> is_js_space c
      | Placeholder name arg \<Rightarrow>
          name \<noteq> ''__proto__'' \<and> (case arg of None \<Rightarrow> True | Some a \<Rightarrow> list_all plain_char a))"

definition simple_template :: "string \<Rightarrow> bool" where
  "simple_template template = list_all simple_segment (scan (escape_quotes template))"

text \<open>
  Every quote of a string, or of a list of segments, stands right after a backslash (the
  flag tells whether the character before the first one is a backslash).
\<close>

fun escaped :: "bool \<Rightarrow> string \<Rightarrow> bool" where
  "escaped b [] = True"
| "escaped b (c # cs) = ((c = DQ \<longrightarrow> b) \<and> escaped (c = BSL) cs)"


text \<open>The argument of the last placeholder of a given name, if there is one.\<close>

fun last_arg :: "string \<Rightarrow> (string \<times> string option) list \<Rightarrow> string option option" where
  "last_arg n [] = None"
| "last_arg n ((m, a) # ps) =
     (case last_arg n ps of Some b \<Rightarrow> Some b | None \<Rightarrow> if m = n then Some a else None)"

text \<open>The text of one property, between its opening quote and the comma after it.\<close>

definition property_text :: "string \<Rightarrow> string option \<Rightarrow> string" where
  "property_text name arg =
     name @ [DQ] @ '': tokens['' @ JSON_stringify name @ '']('' @
       (''req, res'' @ (case arg of None \<Rightarrow> [] | Some a \<Rightarrow> '', '' @ JSON_stringify a)) @ '')''"

subsection \<open>A request for the scenarios\<close>

text \<open>
  \<^verbatim>\<open>GET /foo\<close>, answered with status 200 and \<^verbatim>\<open>Content-Length: 5\<close>; the request arrives
  at \<open>t0\<close> and the headers are written 12.345 ms later, at \<open>t1\<close>.
\<close>

definition absent_token :: resolver where
  "absent_token req res arg = Returns JUndefined"

definition scenario_registry :: registry where
  "scenario_registry = module_registry absent_token absent_token absent_token"

definition foo_request :: request where
  "foo_request =
     \<lparr>req_method = ''GET'', req_originalUrl = None, req_url = ''/foo'',
      req_headers = [''host'' \<mapsto> HString ''localhost'', ''accept'' \<mapsto> HString ''text/html''],
      req_ip = None, req_remoteAddress = None, req_connection = Some (Some ''127.0.0.1''),
      req_startAt = None, req_startTime = None\<rparr>"

definition foo_response :: response where
  "foo_response =
     \<lparr>res_statusCode = 200, res_headersSent = Some False, res_header = None,
      res_headers = [''content-length'' \<mapsto> HString ''5''],
      res_startAt = None, res_startTime = None\<rparr>"

definition t0 :: clock where
  "t0 = \<lparr>hrtime = (100, 999000000), date = 1500000000000\<rparr>"

definition t1 :: clock where
  "t1 = \<lparr>hrtime = (101, 11345000), date = 1500000000012\<rparr>"

definition foo_options :: jsvalue where
  "foo_options =
     JObject [(''url'', JString ''mongodb://localhost:27017''), (''db'', JString ''logs''),
              (''collection'', JString ''requests'')]"

text \<open>The request and the response of the scenario when the response has finished.\<close>

definition foo_request_finished :: request where
  "foo_request_finished = fst (arrival t0 foo_request foo_response)"

definition foo_response_finished :: response where
  "foo_response_finished =
     (recordStartTime_res t1 (snd (arrival t0 foo_request foo_response)))\<lparr>res_headersSent := Some True\<rparr>"

definition tiny_builder :: jsvalue where
  "tiny_builder =
     JBuilder [(''method'', ''method'', None), (''url'', ''url'', None),
               (''status'', ''status'', None), (''res'', ''res'', Some ''content-length''),
               (''response-time'', ''response-time'', None)]"

definition tiny_record :: "(string \<times> jsvalue) list" where
  "tiny_record =
     [(''method'', JString ''GET''), (''url'', JString ''/foo''), (''status'', JNumber 200),
      (''res'', JString ''5''),
      (''response-time'', JNumber (double_value (double_of_decimal 12345 3)))]"

text \<open>A skip predicate that skips every request, and a format function that returns \<^verbatim>\<open>null\<close>.\<close>

definition skip_all :: resolver where
  "skip_all req res arg = Returns (JBoolean True)"

definition null_line :: "registry \<Rightarrow> request \<Rightarrow> response \<Rightarrow> jsvalue outcome" where
  "null_line tokens req res = Returns JNull"

text \<open>A middleware for immediate logging, and the options of a second target.\<close>

definition immediate_options :: jsvalue where
  "immediate_options =
     JObject [(''url'', JString ''mongodb://localhost:27017''), (''db'', JString ''logs''),
              (''collection'', JString ''requests''), (''immediate'', JBoolean True)]"

definition immediate_middleware :: middleware where
  "immediate_middleware =
     \<lparr>formatLine = call_format (JBuilder [(''method'', ''method'', None),
                                            (''response-time'', ''response-time'', None)]),
      opts = immediate_options, immediate = JBoolean True, skip = JBoolean False,
      deprecated = False\<rparr>"

definition other_options :: jsvalue where
  "other_options =
     JObject [(''url'', JString ''mongodb://db.example:27017''), (''db'', JString ''audit''),
              (''collection'', JString ''hits'')]"

section \<open>Lemmas\<close>

subsection \<open>Outcomes\<close>

lemma and_then_Returns [simp]: "and_then (Returns v) f = f v"
  by (simp add: and_then_def)

lemma and_then_Throws [simp]: "and_then (Throws e) f = Throws e"
  by (simp add: and_then_def)

lemma and_then_Unmodelled [simp]: "and_then Unmodelled f = Unmodelled"
  by (simp add: and_then_def)

lemma and_then_assoc: "and_then (and_then m f) g = and_then m (\<lambda>x. and_then (f x) g)"
  by (simp add: and_then_def split: option.splits sum.splits)

lemma and_then_Returns_right: "and_then m (\<lambda>ps. Returns ps) = m"
  by (simp add: and_then_def split: option.splits sum.splits)

subsection \<open>The source text of a simple template is read back\<close>

lemma name_char_plain: "is_name_char c \<Longrightarrow> plain_char c"
  by (auto simp: is_name_char_def word_chars_def plain_char_def)

lemma plain_json_escape: "plain_char c \<Longrightarrow> json_escape c = [c]"
  by (auto simp: plain_char_def json_escape_def)

lemma plain_concat_escape: "list_all plain_char s \<Longrightarrow> concat (map json_escape s) = s"
  by (induction s) (simp_all add: plain_json_escape)

lemma plain_JSON_stringify: "list_all plain_char s \<Longrightarrow> JSON_stringify s = DQ # s @ [DQ]"
  by (simp add: JSON_stringify_def plain_concat_escape)

lemma strip_prefix_append: "strip_prefix p (p @ s) = Some s"
  by (induction p) simp_all

lemma plain_takeWhile: "list_all plain_char s \<Longrightarrow> takeWhile (\<lambda>c. c \<noteq> DQ) (s @ DQ # r) = s"
  by (induction s) (simp_all add: plain_char_def)

lemma plain_dropWhile: "list_all plain_char s \<Longrightarrow> dropWhile (\<lambda>c. c \<noteq> DQ) (s @ DQ # r) = DQ # r"
  by (induction s) (simp_all add: plain_char_def)

lemma read_string_plain: "list_all plain_char s \<Longrightarrow> read_string (s @ DQ # r) = Some (s, r)"
  by (simp add: read_string_def plain_takeWhile plain_dropWhile)

lemma parse_property_replacement:
  assumes n: "list_all plain_char name" "name \<noteq> ''__proto__''"
    and a: "case arg of None \<Rightarrow> True | Some a \<Rightarrow> list_all plain_char a"
  shows "parse_property (name @ [DQ] @ '': tokens['' @ JSON_stringify name @ '']('' @
      (''req, res'' @ (case arg of None \<Rightarrow> [] | Some a \<Rightarrow> '', '' @ JSON_stringify a)) @ '')'' @ r)
    = Some ((name, name, arg), r)"
proof (cases arg)
  case None
  have "parse_property (name @ DQ # ('': tokens['' @ [DQ]) @ name @ DQ # ''](req, res'' @ '')'' @ r)
    = Some ((name, name, None), r)"
    by (simp add: parse_property_def n read_string_plain)
  then show ?thesis
    using None n by (simp add: plain_JSON_stringify)
next
  case (Some a')
  with a have pa: "list_all plain_char a'" by simp
  have "parse_property (name @ DQ # ('': tokens['' @ [DQ]) @ name @ DQ # ''](req, res'' @
      ('', '' @ [DQ]) @ a' @ DQ # '')'' @ r)
    = Some ((name, name, Some a'), r)"
    by (simp add: parse_property_def n pa read_string_plain)
  then show ?thesis
    using Some n pa by (simp add: plain_JSON_stringify)
qed


lemma scan_names: "Placeholder name arg \<in> set (scan s) \<Longrightarrow> list_all is_name_char name"
proof (induction s rule: scan.induct)
  case 1
  then show ?case by simp
next
  case (2 c cs)
  have tw: "list_all is_name_char (takeWhile is_name_char cs)"
    by (simp add: list_all_iff) (meson set_takeWhileD)
  from 2 tw show ?case
    by (auto split: if_splits option.splits)
qed

lemma list_all_name_plain: "list_all is_name_char s \<Longrightarrow> list_all plain_char s"
  by (induction s) (simp_all add: name_char_plain)

lemma replacement_text: "replacement name arg = NL # ''    '' @ [DQ] @ property_text name arg @ '',''"
  by (simp add: replacement_def property_text_def Let_def)

lemma parse_property_text:
  assumes "list_all plain_char name" "name \<noteq> ''__proto__''"
    and "case arg of None \<Rightarrow> True | Some a \<Rightarrow> list_all plain_char a"
  shows "parse_property (property_text name arg @ r) = Some ((name, name, arg), r)"
  using parse_property_replacement [OF assms, of r] by (simp add: property_text_def)

lemma parse_properties_replacement:
  assumes "list_all plain_char name" "name \<noteq> ''__proto__''"
    and "case arg of None \<Rightarrow> True | Some a \<Rightarrow> list_all plain_char a"
  shows "parse_properties (replacement name arg @ r)
    = and_then (parse_properties r) (\<lambda>ps. Returns ((name, name, arg) # ps))"
  by (simp add: replacement_text is_js_space_def parse_property_text [OF assms])

lemma parse_properties_last:
  assumes "list_all plain_char name" "name \<noteq> ''__proto__''"
    and "case arg of None \<Rightarrow> True | Some a \<Rightarrow> list_all plain_char a"
  shows "parse_properties (butlast (replacement name arg) @ ''}'') = Returns [(name, name, arg)]"
proof -
  have "butlast (replacement name arg) = NL # ''    '' @ [DQ] @ property_text name arg"
    by (simp add: replacement_text butlast_append)
  then show ?thesis
    by (simp add: is_js_space_def parse_property_text [OF assms])
qed

lemma parse_properties_space: "is_js_space c \<Longrightarrow> parse_properties (c # r) = parse_properties r"
  by simp

lemma parse_properties_render:
  assumes "list_all simple_segment gs" "\<forall>n a. Placeholder n a \<in> set gs \<longrightarrow> list_all plain_char n"
  shows "parse_properties (concat (map render gs) @ r)
    = and_then (parse_properties r) (\<lambda>ps. Returns (map property_of (placeholders gs) @ ps))"
  using assms
proof (induction gs)
  case Nil
  show ?case by (simp add: and_then_Returns_right)
next
  case (Cons g gs)
  have IH: "parse_properties (concat (map render gs) @ r)
    = and_then (parse_properties r) (\<lambda>ps. Returns (map property_of (placeholders gs) @ ps))"
  proof (rule Cons.IH)
    show "list_all simple_segment gs"
      using Cons.prems(1) by simp
    show "\<forall>n a. Placeholder n a \<in> set gs \<longrightarrow> list_all plain_char n"
      using Cons.prems(2) by simp
  qed
  show ?case
  proof (cases g)
    case (Lit c)
    with Cons.prems have "is_js_space c" by (simp add: simple_segment_def)
    with Lit IH show ?thesis by simp
  next
    case (Placeholder n a)
    with Cons.prems have "list_all plain_char n" "n \<noteq> ''__proto__''"
      "case a of None \<Rightarrow> True | Some a \<Rightarrow> list_all plain_char a"
      by (simp_all add: simple_segment_def)
    from parse_properties_replacement [OF this] Placeholder IH show ?thesis
      by (simp add: and_then_assoc)
  qed
qed

lemma render_not_Nil: "render g \<noteq> []"
  by (cases g) (simp_all add: replacement_def Let_def)

lemma compile_js_text:
  assumes "gs \<noteq> []" "scan (escape_quotes template) = gs"
  shows "compile_js template
    = function_head @ ''{'' @ concat (map render (butlast gs)) @ butlast (render (last gs)) @ ''}''"
proof -
  from assms(1) obtain gs' g where gs: "gs = gs' @ [g]"
    by (metis append_butlast_last_id)
  have "butlast (function_head @ ''{'' @ concat (map render gs))
    = function_head @ ''{'' @ concat (map render gs') @ butlast (render g)"
    by (simp add: gs butlast_append render_not_Nil)
  then show ?thesis
    by (simp add: compile_js_def assms(2) gs)
qed

lemma placeholders_append: "placeholders (gs @ hs) = placeholders gs @ placeholders hs"
  by (induction gs rule: placeholders.induct) simp_all

lemma scan_Nil: "scan s = [] \<longleftrightarrow> s = []"
  by (cases s) (auto split: option.splits)

lemma escape_quotes_Nil: "escape_quotes s = [] \<longleftrightarrow> s = []"
  by (cases s) (simp_all add: escape_quotes_def)

lemma compile_simple:
  assumes "simple_template template" "template \<noteq> []"
  shows "compile (JString template)
    = Returns (JBuilder (map property_of (template_placeholders template)))"
proof -
  define gs where "gs = scan (escape_quotes template)"
  have ne: "gs \<noteq> []"
    using assms(2) by (simp add: gs_def scan_Nil escape_quotes_Nil)
  then obtain gs' g where gs: "gs = gs' @ [g]"
    by (metis append_butlast_last_id)
  have simple: "list_all simple_segment gs' " "simple_segment g"
    using assms(1) by (simp_all add: simple_template_def gs_def [symmetric] gs)
  have plain: "\<forall>n a. Placeholder n a \<in> set gs \<longrightarrow> list_all plain_char n"
    using scan_names list_all_name_plain unfolding gs_def by blast
  have js: "compile_js template
    = function_head @ ''{'' @ concat (map render gs') @ butlast (render g) @ ''}''"
    using compile_js_text [OF ne] by (simp add: gs_def [symmetric]) (simp add: gs)
  have tail: "parse_properties (butlast (render g) @ ''}'') = Returns (map property_of (placeholders [g]))"
  proof (cases g)
    case (Lit c)
    then show ?thesis by (simp add: is_js_space_def)
  next
    case (Placeholder n a)
    with simple(2) plain have "list_all plain_char n" "n \<noteq> ''__proto__''"
      "case a of None \<Rightarrow> True | Some a \<Rightarrow> list_all plain_char a"
      by (simp_all add: simple_segment_def gs)
    from parse_properties_last [OF this] Placeholder show ?thesis
      by simp
  qed
  have plain': "\<forall>n a. Placeholder n a \<in> set gs' \<longrightarrow> list_all plain_char n"
    using plain by (simp add: gs)
  have "parse_properties (concat (map render gs') @ butlast (render g) @ ''}'')
    = Returns (map property_of (placeholders gs))"
    using parse_properties_render [OF simple(1) plain', of "butlast (render g) @ ''}''"] tail
    by (simp add: gs placeholders_append)
  then show ?thesis
    by (simp add: compile_def new_Function_def js strip_prefix_append
        template_placeholders_def gs_def [symmetric])
qed

subsection \<open>A template that compiles is read back as its placeholders\<close>

lemma escaped_weaken: "escaped False s \<Longrightarrow> escaped b s"
  by (cases s) simp_all














lemma not_all_space_append: "\<not> list_all is_js_space r \<Longrightarrow> \<not> list_all is_js_space (s @ r)"
  by simp



subsection \<open>The record a builder returns\<close>

lemma map_of_set_property: "map_of (set_property obj k v) = (map_of obj)(k \<mapsto> v)"
  by (induction obj k v rule: set_property.induct) auto

lemma keys_set_property: "fst ` set (set_property obj k v) = insert k (fst ` set obj)"
  by (induction obj k v rule: set_property.induct) auto

lemma distinct_set_property:
  "distinct (map fst obj) \<Longrightarrow> distinct (map fst (set_property obj k v))"
  by (induction obj k v rule: set_property.induct) (auto simp: keys_set_property)



lemma eval_properties_record:
  assumes "\<forall>(n, a) \<in> set phs. \<exists>v. call_token tokens req res n a = Returns v"
  shows "\<exists>obj'. eval_properties tokens req res (map property_of phs) obj = Returns (JObject obj')
    \<and> fst ` set obj' = fst ` set obj \<union> fst ` set phs
    \<and> (distinct (map fst obj) \<longrightarrow> distinct (map fst obj'))
    \<and> (\<forall>n. map_of obj' n
          = (case last_arg n phs of
               None \<Rightarrow> map_of obj n
             | Some a \<Rightarrow> (case call_token tokens req res n a of
                           Some (Inr v) \<Rightarrow> Some v | _ \<Rightarrow> None)))"
  using assms
proof (induction phs arbitrary: obj)
  case Nil
  show ?case by simp
next
  case (Cons p phs)
  obtain m b where p: "p = (m, b)" by (cases p)
  from Cons.prems p obtain w where w: "call_token tokens req res m b = Returns w"
    by auto
  from Cons.prems have rest: "\<forall>(n, a) \<in> set phs. \<exists>v. call_token tokens req res n a = Returns v"
    by simp
  from Cons.IH [OF rest, of "set_property obj m w"] obtain obj' where
    e: "eval_properties tokens req res (map property_of phs) (set_property obj m w) = Returns (JObject obj')"
    and k: "fst ` set obj' = fst ` set (set_property obj m w) \<union> fst ` set phs"
    and d: "distinct (map fst (set_property obj m w)) \<longrightarrow> distinct (map fst obj')"
    and v: "\<forall>n. map_of obj' n
          = (case last_arg n phs of
               None \<Rightarrow> map_of (set_property obj m w) n
             | Some a \<Rightarrow> (case call_token tokens req res n a of
                           Some (Inr v) \<Rightarrow> Some v | _ \<Rightarrow> None))"
    by blast
  have 1: "eval_properties tokens req res (map property_of (p # phs)) obj = Returns (JObject obj')"
    by (simp add: p w e)
  have 2: "fst ` set obj' = fst ` set obj \<union> fst ` set (p # phs)"
    by (simp add: k keys_set_property p)
  have 3: "distinct (map fst obj) \<longrightarrow> distinct (map fst obj')"
    using d distinct_set_property by blast
  have 4: "map_of obj' n
          = (case last_arg n (p # phs) of
               None \<Rightarrow> map_of obj n
             | Some a \<Rightarrow> (case call_token tokens req res n a of
                           Some (Inr v) \<Rightarrow> Some v | _ \<Rightarrow> None))" for n
    using v [rule_format, of n] w by (auto simp: p map_of_set_property split: option.splits)
  show ?case
    using 1 2 3 4 by blast
qed

lemma builder_record:
  assumes "\<forall>(n, a) \<in> set phs. \<exists>v. call_token tokens req res n a = Returns v"
  shows "\<exists>obj. eval_properties tokens req res (map property_of phs) [] = Returns (JObject obj)
    \<and> fst ` set obj = fst ` set phs
    \<and> distinct (map fst obj)
    \<and> (\<forall>n. map_of obj n
          = (case last_arg n phs of
               None \<Rightarrow> None
             | Some a \<Rightarrow> (case call_token tokens req res n a of
                           Some (Inr v) \<Rightarrow> Some v | _ \<Rightarrow> None)))"
  using eval_properties_record [OF assms, of "[]"] by (simp cong: option.case_cong)

lemma eval_properties_unregistered:
  assumes "(n, a) \<in> set phs" "tokens n = None"
    and "\<forall>(m, b) \<in> set phs. tokens m \<noteq> None \<longrightarrow> (\<exists>v. call_token tokens req res m b = Returns v)"
  shows "eval_properties tokens req res (map property_of phs) obj
    = Throws (TypeError ''tokens[name] is not a function'')"
  using assms
proof (induction phs arbitrary: obj)
  case Nil
  then show ?case by simp
next
  case (Cons p phs)
  obtain m b where p: "p = (m, b)" by (cases p)
  show ?case
  proof (cases "tokens m")
    case None
    then show ?thesis
      by (simp add: p call_token_def get_def)
  next
    case (Some f)
    with Cons.prems p obtain w where w: "call_token tokens req res m b = Returns w"
      by auto
    from Some Cons.prems(1,2) p have "(n, a) \<in> set phs"
      by auto
    from Cons.IH [OF this Cons.prems(2)] Cons.prems(3) show ?thesis
      by (simp add: p w)
  qed
qed

lemma eval_properties_no_record:
  assumes "(n, a) \<in> set phs" "tokens n = None"
  shows "eval_properties tokens req res (map property_of phs) obj \<noteq> Returns r"
  using assms
proof (induction phs arbitrary: obj)
  case Nil
  then show ?case by simp
next
  case (Cons p phs)
  obtain m b where p: "p = (m, b)" by (cases p)
  show ?case
  proof (cases "call_token tokens req res m b")
    case None
    then show ?thesis by (simp add: p)
  next
    case (Some x)
    show ?thesis
    proof (cases x)
      case (Inl e)
      with Some show ?thesis by (simp add: p)
    next
      case (Inr w)
      with Some Cons.prems p have "(n, a) \<in> set phs"
        by (auto simp: call_token_def get_def)
      from Cons.IH [OF this Cons.prems(2)] Some Inr show ?thesis
        by (simp add: p)
    qed
  qed
qed


lemma placeholder_template_not_Nil: "(n, a) \<in> set (template_placeholders t) \<Longrightarrow> t \<noteq> []"
  by (auto simp: template_placeholders_def escape_quotes_def)

lemma placeholder_names: "(n, a) \<in> set (placeholders gs) \<Longrightarrow> Placeholder n a \<in> set gs"
  by (induction gs rule: placeholders.induct) auto

lemma template_placeholder_name:
  "(n, a) \<in> set (template_placeholders t) \<Longrightarrow> list_all is_name_char n"
  unfolding template_placeholders_def using placeholder_names scan_names by blast

lemma name_no_bracket: "list_all is_name_char n \<Longrightarrow> CHR ''['' \<notin> set n"
  by (induction n) (auto simp: is_name_char_def word_chars_def)

subsection \<open>Rounding to 53 bits\<close>

lemma floor_numeral_divide: "\<lfloor>numeral a / numeral b :: rat\<rfloor> = numeral a div numeral b"
  using floor_divide_of_int_eq [of "numeral a" "numeral b", where ?'a = rat] by simp
















subsection \<open>The elapsed time in milliseconds\<close>










subsection \<open>Rounding to a number of digits\<close>







subsection \<open>The scenarios\<close>

lemma eval_properties_returns:
  "eval_properties tokens req res (map property_of phs) obj = Returns r \<Longrightarrow>
   \<forall>(n, a) \<in> set phs. \<exists>v. call_token tokens req res n a = Returns v"
proof (induction phs arbitrary: obj)
  case Nil
  show ?case by simp
next
  case (Cons p phs)
  obtain m b where p: "p = (m, b)" by (cases p)
  from Cons.prems obtain w where w: "call_token tokens req res m b = Returns w"
    by (auto simp: p and_then_def split: option.splits sum.splits)
  with Cons.prems have "eval_properties tokens req res (map property_of phs) (set_property obj m w) = Returns r"
    by (simp add: p)
  from Cons.IH [OF this] w show ?case
    by (simp add: p)
qed

lemmas compile_eval_simps =
  compile_def compile_js_def new_Function_def escape_quotes_def function_head_def
  replacement_def JSON_stringify_def json_escape_def is_name_char_def word_chars_def
  match_arg_def read_string_def parse_property_def plain_char_def is_js_space_def

lemma tiny_placeholders:
  "template_placeholders tiny_format
   = [(''method'', None), (''url'', None), (''status'', None),
      (''res'', Some ''content-length''), (''response-time'', None)]"
  by (simp add: template_placeholders_def tiny_format_def escape_quotes_def is_name_char_def
      word_chars_def match_arg_def)

lemma tiny_simple: "simple_template tiny_format"
  by (simp add: simple_template_def tiny_format_def escape_quotes_def is_name_char_def
      word_chars_def match_arg_def simple_segment_def is_js_space_def plain_char_def)

lemma scenario_start_times:
  "req_startAt foo_request_finished = Some (100, 999000000)"
  "res_startAt foo_response_finished = Some (101, 11345000)"
  by (simp_all add: foo_request_finished_def foo_response_finished_def arrival_def Let_def
      recordStartTime_req_def recordStartTime_res_def t0_def t1_def)

lemma scenario_ms: "ms (100, 999000000) (101, 11345000) = (108587768359158, - 43)"
  by (simp add: ms_def double_plus_def double_times_def double_minus_def double_of_int_def
      double_of_decimal_def round53_def bit_length.simps half_even_def Let_def)

lemma scenario_response_time:
  "getResponseTimeToken foo_request_finished foo_response_finished None
     = Returns (JNumber (double_value (double_of_decimal 12345 3)))"
  "getResponseTimeToken foo_request_finished foo_response_finished (Some ''14'')
     = Returns (JNumber (double_value (double_of_decimal 1234500000000003 14)))"
  by (simp_all add: getResponseTimeToken_def scenario_start_times scenario_ms
      toFixed_parseFloat_def digits_value_def round_fixed_def double_value_def power_int_def
      power_one_over floor_numeral_divide Let_def)

lemma scenario_tokens_plain:
  "call_token scenario_registry foo_request_finished foo_response_finished ''method'' None
     = Returns (JString ''GET'')"
  "call_token scenario_registry foo_request_finished foo_response_finished ''url'' None
     = Returns (JString ''/foo'')"
  "call_token scenario_registry foo_request_finished foo_response_finished ''status'' None
     = Returns (JNumber 200)"
  "call_token scenario_registry foo_request_finished foo_response_finished ''res''
     (Some ''content-length'') = Returns (JString ''5'')"
  "call_token scenario_registry foo_request_finished foo_response_finished ''req'' (Some ''host'')
     = Returns (JString ''localhost'')"
  "call_token scenario_registry foo_request_finished foo_response_finished ''req'' (Some ''accept'')
     = Returns (JString ''text/html'')"
  "call_token scenario_registry foo_request_finished foo_response_finished ''bogus'' None
     = Throws (TypeError ''tokens[name] is not a function'')"
  by (simp_all add: call_token_def get_def scenario_registry_def module_registry_def
      getMethodToken_def getUrlToken_def getStatusToken_def getResponseHeader_def
      getRequestToken_def
      foo_request_finished_def foo_response_finished_def arrival_def Let_def
      recordStartTime_req_def recordStartTime_res_def foo_request_def foo_response_def
      t0_def t1_def headersSent_def or_else_def option_value_def toLowerCase_def lower_char_def
      header_value_def)

lemma scenario_response_time_token:
  "call_token scenario_registry foo_request_finished foo_response_finished ''response-time'' None
     = Returns (JNumber (double_value (double_of_decimal 12345 3)))"
  by (simp add: call_token_def get_def scenario_registry_def module_registry_def
      scenario_response_time)

lemmas scenario_tokens = scenario_tokens_plain scenario_response_time_token

lemma bogus_placeholders:
  "template_placeholders '':method :bogus'' = [(''method'', None), (''bogus'', None)]"
  by (simp add: template_placeholders_def escape_quotes_def is_name_char_def word_chars_def
      match_arg_def)

lemma bogus_simple: "simple_template '':method :bogus''"
  by (simp add: simple_template_def escape_quotes_def is_name_char_def
      word_chars_def match_arg_def simple_segment_def is_js_space_def)

lemma bogus_unregistered: "scenario_registry ''bogus'' = None"
  by (simp add: scenario_registry_def module_registry_def)



subsection \<open>The listeners\<close>

text \<open>
  A record is never \<^verbatim>\<open>null\<close>: when nothing is skipped, a builder made by \<open>compile\<close> that
  returns leads to exactly one call of \<open>insertDB\<close>, also when every field of the record
  is \<^verbatim>\<open>undefined\<close>.
\<close>

lemma logRequest_record_inserted:
  assumes "skip mw = JBoolean False" "formatLine mw tokens req res = Returns (JObject obj)"
  shows "logRequest mw tokens req res
    = Returns [(field (opts mw) ''url'', field (opts mw) ''db'', field (opts mw) ''collection'',
                [JObject obj])]"
  using assms by (simp add: logRequest_def)

lemma eval_properties_object:
  "eval_properties tokens req res ps obj = Returns line \<Longrightarrow> \<not> is_nullish line"
proof (induction ps arbitrary: obj)
  case Nil
  then show ?case by auto
next
  case (Cons p ps)
  obtain key name arg where p: "p = (key, name, arg)"
    by (cases p)
  from Cons.prems obtain v where
    "eval_properties tokens req res ps (set_property obj key v) = Returns line"
    by (auto simp: p and_then_def split: option.splits sum.splits)
  then show ?case
    by (rule Cons.IH)
qed

lemma builder_line_not_null:
  "call_format (JBuilder ps) tokens req res = Returns line \<Longrightarrow> \<not> is_nullish line"
  using eval_properties_object by simp

text \<open>
  Without immediate logging both listeners are registered, and the headers' listener
  records the start of the response.
\<close>

lemma deferred_second_capture:
  assumes "\<not> truthy (immediate mw)"
  shows "\<exists>ex. logger mw tokens now req res = Returns ex \<and> ex_onHeaders ex \<and> ex_onFinished ex
    \<and> ex_inserts ex = []
    \<and> res_startAt (ex_res (headers_event now' ex)) = Some (hrtime now')"
proof -
  obtain req' res' where a: "arrival now req res = (req', res')"
    by (cases "arrival now req res")
  let ?ex = "\<lparr>ex_req = req', ex_res = res', ex_inserts = [],
              ex_onHeaders = True, ex_onFinished = True\<rparr>"
  have "logger mw tokens now req res = Returns ?ex"
    using assms by (simp add: logger_def a)
  moreover have "res_startAt (ex_res (headers_event now' ?ex)) = Some (hrtime now')"
    by (simp add: headers_event_def recordStartTime_res_def)
  ultimately show ?thesis
    by simp
qed

section \<open>The properties of the specification\<close>

text \<open>
  C1, as the code has it. A template of placeholders and white space compiles whether
  or not its names are registered, but the builder calls \<^verbatim>\<open>tokens[name]\<close> unguarded: when
  a placeholder's name yields \<^verbatim>\<open>undefined\<close>, the call of the builder returns no record,
  and it throws a \<open>TypeError\<close> where the resolvers of the registered names return.
\<close>

theorem unregistered_token_throws:
  assumes "simple_template t" "(n, a) \<in> set (template_placeholders t)" "tokens n = None"
  shows "compile (JString t) = Returns (JBuilder (map property_of (template_placeholders t)))
    \<and> (\<forall>r. call_format (JBuilder (map property_of (template_placeholders t))) tokens req res
            \<noteq> Returns r)
    \<and> ((\<forall>(m, b) \<in> set (template_placeholders t).
            tokens m \<noteq> None \<longrightarrow> (\<exists>v. call_token tokens req res m b = Returns v)) \<longrightarrow>
         call_format (JBuilder (map property_of (template_placeholders t))) tokens req res
         = Throws (TypeError ''tokens[name] is not a function''))"
proof -
  from assms(2) have "t \<noteq> []"
    by (rule placeholder_template_not_Nil)
  with assms(1) have 1: "compile (JString t)
      = Returns (JBuilder (map property_of (template_placeholders t)))"
    by (rule compile_simple)
  have 2: "\<forall>r. call_format (JBuilder (map property_of (template_placeholders t))) tokens req res
      \<noteq> Returns r"
    using eval_properties_no_record [where tokens = tokens, OF assms(2,3)] by simp
  have 3: "(\<forall>(m, b) \<in> set (template_placeholders t).
            tokens m \<noteq> None \<longrightarrow> (\<exists>v. call_token tokens req res m b = Returns v)) \<longrightarrow>
         call_format (JBuilder (map property_of (template_placeholders t))) tokens req res
         = Throws (TypeError ''tokens[name] is not a function'')"
    using eval_properties_unregistered [where tokens = tokens, OF assms(2,3)] by simp
  show ?thesis
    by (intro conjI 1 2 3)
qed

theorem unregistered_token_throws_witness:
  "simple_template '':method :bogus''
   \<and> (''bogus'', None) \<in> set (template_placeholders '':method :bogus'')
   \<and> scenario_registry ''bogus'' = None
   \<and> compile (JString '':method :bogus'')
     = Returns (JBuilder [(''method'', ''method'', None), (''bogus'', ''bogus'', None)])"
proof -
  have m: "(''bogus'', None) \<in> set (template_placeholders '':method :bogus'')"
    by (simp add: bogus_placeholders)
  from unregistered_token_throws [where tokens = scenario_registry and n = "''bogus''",
      OF bogus_simple m bogus_unregistered]
  have "compile (JString '':method :bogus'')
     = Returns (JBuilder [(''method'', ''method'', None), (''bogus'', ''bogus'', None)])"
    by (simp add: bogus_placeholders)
  with bogus_simple m bogus_unregistered show ?thesis
    by simp
qed

text \<open>
  C1 as stated fails: with \<^verbatim>\<open>bogus\<close> unregistered, the builder of \<^verbatim>\<open>:method :bogus\<close>
  throws in the scenario instead of returning a record with the method.
\<close>

theorem unregistered_token_counterexample:
  "scenario_registry ''bogus'' = None
   \<and> compile (JString '':method :bogus'')
     = Returns (JBuilder [(''method'', ''method'', None), (''bogus'', ''bogus'', None)])
   \<and> call_format (JBuilder [(''method'', ''method'', None), (''bogus'', ''bogus'', None)])
       scenario_registry foo_request_finished foo_response_finished
     = Throws (TypeError ''tokens[name] is not a function'')"
proof -
  have c: "compile (JString '':method :bogus'')
     = Returns (JBuilder [(''method'', ''method'', None), (''bogus'', ''bogus'', None)])"
    using compile_simple [OF bogus_simple] by (simp add: bogus_placeholders)
  have e: "call_format (JBuilder [(''method'', ''method'', None), (''bogus'', ''bogus'', None)])
       scenario_registry foo_request_finished foo_response_finished
     = Throws (TypeError ''tokens[name] is not a function'')"
    by (simp add: scenario_tokens)
  show ?thesis
    by (intro conjI bogus_unregistered c e)
qed

text \<open>
  C2, as the code has it. A non-empty template made of placeholders and white space
  compiles, and where the resolver of every placeholder returns, the builder returns a
  record whose keys are exactly the names of the placeholders, each name with the value of
  its last placeholder; a template of white space alone gives the empty record. Other
  literal text is not discarded: it stays in the source text of the builder.
\<close>

theorem compile_simple_template:
  assumes "simple_template t" "t \<noteq> []"
    and "\<forall>(n, a) \<in> set (template_placeholders t). \<exists>v. call_token tokens req res n a = Returns v"
  shows "\<exists>obj. compile (JString t) = Returns (JBuilder (map property_of (template_placeholders t)))
    \<and> call_format (JBuilder (map property_of (template_placeholders t))) tokens req res
      = Returns (JObject obj)
    \<and> fst ` set obj = fst ` set (template_placeholders t)
    \<and> (template_placeholders t = [] \<longrightarrow> obj = [])
    \<and> (\<forall>n a v. last_arg n (template_placeholders t) = Some a
          \<and> call_token tokens req res n a = Returns v \<longrightarrow> map_of obj n = Some v)"
proof -
  from builder_record [OF assms(3)] obtain obj where
    o: "eval_properties tokens req res (map property_of (template_placeholders t)) [] = Returns (JObject obj)
    \<and> fst ` set obj = fst ` set (template_placeholders t)
    \<and> distinct (map fst obj)
    \<and> (\<forall>n. map_of obj n
          = (case last_arg n (template_placeholders t) of
               None \<Rightarrow> None
             | Some a \<Rightarrow> (case call_token tokens req res n a of
                           Some (Inr v) \<Rightarrow> Some v | _ \<Rightarrow> None)))"
    ..
  from o have e: "eval_properties tokens req res (map property_of (template_placeholders t)) [] = Returns (JObject obj)"
    by (rule conjunct1)
  from o have k: "fst ` set obj = fst ` set (template_placeholders t)"
    by simp
  from o have v: "\<forall>n. map_of obj n
          = (case last_arg n (template_placeholders t) of
               None \<Rightarrow> None
             | Some a \<Rightarrow> (case call_token tokens req res n a of
                           Some (Inr v) \<Rightarrow> Some v | _ \<Rightarrow> None))"
    by simp
  have 1: "fst ` set obj = fst ` set (template_placeholders t)"
    using k by simp
  have 2: "template_placeholders t = [] \<longrightarrow> obj = []"
    using 1 by auto
  have 3: "\<forall>n a v. last_arg n (template_placeholders t) = Some a
          \<and> call_token tokens req res n a = Returns v \<longrightarrow> map_of obj n = Some v"
    using v by simp
  have 0: "compile (JString t) = Returns (JBuilder (map property_of (template_placeholders t)))"
    by (rule compile_simple [OF assms(1,2)])
  have 4: "call_format (JBuilder (map property_of (template_placeholders t))) tokens req res
      = Returns (JObject obj)"
    using e by simp
  show ?thesis
    by (rule exI [of _ obj]) (intro conjI 0 4 1 2 3)
qed

theorem compile_simple_template_witness:
  "simple_template tiny_format \<and> tiny_format \<noteq> []
   \<and> compile (JString tiny_format) = Returns tiny_builder
   \<and> call_format tiny_builder scenario_registry foo_request_finished foo_response_finished
     = Returns (JObject tiny_record)"
proof -
  have r: "\<forall>(n, a) \<in> set (template_placeholders tiny_format).
      \<exists>v. call_token scenario_registry foo_request_finished foo_response_finished n a = Returns v"
    by (simp add: tiny_placeholders scenario_tokens)
  have n: "tiny_format \<noteq> []"
    by (simp add: tiny_format_def)
  have c: "compile (JString tiny_format) = Returns tiny_builder"
    using compile_simple_template [OF tiny_simple n r]
    by (simp add: tiny_placeholders tiny_builder_def)
  have "call_format tiny_builder scenario_registry foo_request_finished foo_response_finished
     = Returns (JObject tiny_record)"
    by (simp add: tiny_builder_def tiny_record_def scenario_tokens)
  with tiny_simple n c show ?thesis
    by simp
qed

text \<open>
  C2 as stated fails: a template of two dashes has no placeholder and does not compile,
  and a dash between two placeholders makes \<open>compile\<close> throw a \<open>SyntaxError\<close>.
\<close>

theorem literal_text_counterexample:
  "template_placeholders ''--'' = []
   \<and> compile (JString ''--'') = Throws SyntaxError
   \<and> template_placeholders '':method - :url'' = [(''method'', None), (''url'', None)]
   \<and> compile (JString '':method - :url'') = Throws SyntaxError"
  by (simp add: compile_eval_simps template_placeholders_def)

text \<open>
  C3, as the code has it. When the skip predicate returns a true value at the trigger, or
  the format function returns \<^verbatim>\<open>null\<close> or \<^verbatim>\<open>undefined\<close>, \<open>logRequest\<close> returns without a
  call of \<open>insertDB\<close> and without throwing; this is what \<open>logger\<close> runs at once for an
  immediate middleware, and what the end of the response runs otherwise. A record whose
  fields are all absent is not such a result: it is an object, and it is inserted.
\<close>

theorem logRequest_no_insert:
  assumes "(skip mw \<noteq> JBoolean False \<and> call_skip (skip mw) req res = Returns True)
    \<or> ((skip mw = JBoolean False \<or> call_skip (skip mw) req res = Returns False)
        \<and> (\<exists>line. formatLine mw tokens req res = Returns line \<and> is_nullish line))"
  shows "logRequest mw tokens req res = Returns []
    \<and> (truthy (immediate mw) \<and> arrival now req0 res0 = (req, res) \<longrightarrow>
         logger mw tokens now req0 res0
         = Returns \<lparr>ex_req = req, ex_res = res, ex_inserts = [],
                    ex_onHeaders = False, ex_onFinished = False\<rparr>)
    \<and> (ex_onFinished ex \<and> ex_req ex = req \<and> ex_res ex = res \<longrightarrow>
         finished_event mw tokens ex = Returns (ex\<lparr>ex_onFinished := False\<rparr>))"
proof -
  have l: "logRequest mw tokens req res = Returns []"
    using assms by (auto simp: logRequest_def)
  show ?thesis
    using l by (auto simp: logger_def finished_event_def)
qed

theorem logRequest_no_insert_witness:
  "call_skip (JNative skip_all) foo_request_finished foo_response_finished = Returns True
   \<and> logRequest \<lparr>formatLine = call_format (JBuilder []), opts = foo_options,
                  immediate = JUndefined, skip = JNative skip_all, deprecated = False\<rparr>
        scenario_registry foo_request_finished foo_response_finished = Returns []
   \<and> null_line scenario_registry foo_request_finished foo_response_finished = Returns JNull
   \<and> logRequest \<lparr>formatLine = null_line, opts = foo_options,
                  immediate = JUndefined, skip = JBoolean False, deprecated = False\<rparr>
        scenario_registry foo_request_finished foo_response_finished = Returns []"
proof -
  have s: "call_skip (JNative skip_all) foo_request_finished foo_response_finished = Returns True"
    by (simp add: call_skip_def skip_all_def)
  have n: "null_line scenario_registry foo_request_finished foo_response_finished = Returns JNull"
    by (simp add: null_line_def)
  have 1: "logRequest \<lparr>formatLine = call_format (JBuilder []), opts = foo_options,
                  immediate = JUndefined, skip = JNative skip_all, deprecated = False\<rparr>
        scenario_registry foo_request_finished foo_response_finished = Returns []"
    using logRequest_no_insert [of "\<lparr>formatLine = call_format (JBuilder []), opts = foo_options,
                  immediate = JUndefined, skip = JNative skip_all, deprecated = False\<rparr>"
        foo_request_finished foo_response_finished scenario_registry] s
    by simp
  have 2: "logRequest \<lparr>formatLine = null_line, opts = foo_options,
                  immediate = JUndefined, skip = JBoolean False, deprecated = False\<rparr>
        scenario_registry foo_request_finished foo_response_finished = Returns []"
    using logRequest_no_insert [of "\<lparr>formatLine = null_line, opts = foo_options,
                  immediate = JUndefined, skip = JBoolean False, deprecated = False\<rparr>"
        foo_request_finished foo_response_finished scenario_registry] n
    by simp
  show ?thesis
    by (intro conjI s 1 n 2)
qed

text \<open>
  C3 as stated fails: with the headers not yet sent, the builder of \<^verbatim>\<open>:status\<close> returns a
  record whose only field is absent, and \<open>logRequest\<close> passes it to \<open>insertDB\<close>.
\<close>

theorem all_absent_record_counterexample:
  "compile (JString '':status'') = Returns (JBuilder [(''status'', ''status'', None)])
   \<and> call_format (JBuilder [(''status'', ''status'', None)])
       scenario_registry foo_request_finished foo_response
     = Returns (JObject [(''status'', JUndefined)])
   \<and> logRequest \<lparr>formatLine = call_format (JBuilder [(''status'', ''status'', None)]),
                  opts = foo_options, immediate = JUndefined, skip = JBoolean False,
                  deprecated = False\<rparr>
        scenario_registry foo_request_finished foo_response
     = Returns [(JString ''mongodb://localhost:27017'', JString ''logs'', JString ''requests'',
                 [JObject [(''status'', JUndefined)]])]"
proof -
  have c: "compile (JString '':status'') = Returns (JBuilder [(''status'', ''status'', None)])"
    by (simp add: compile_eval_simps)
  have e: "call_format (JBuilder [(''status'', ''status'', None)])
       scenario_registry foo_request_finished foo_response
     = Returns (JObject [(''status'', JUndefined)])"
    by (simp add: call_token_def get_def scenario_registry_def module_registry_def
        getStatusToken_def headersSent_def foo_response_def)
  have l: "logRequest \<lparr>formatLine = call_format (JBuilder [(''status'', ''status'', None)]),
                  opts = foo_options, immediate = JUndefined, skip = JBoolean False,
                  deprecated = False\<rparr>
        scenario_registry foo_request_finished foo_response
     = Returns [(JString ''mongodb://localhost:27017'', JString ''logs'', JString ''requests'',
                 [JObject [(''status'', JUndefined)]])]"
    using logRequest_record_inserted [of "\<lparr>formatLine = call_format (JBuilder [(''status'', ''status'', None)]),
                  opts = foo_options, immediate = JUndefined, skip = JBoolean False,
                  deprecated = False\<rparr>" scenario_registry foo_request_finished foo_response
        "[(''status'', JUndefined)]"] e
    by (simp add: foo_options_def)
  show ?thesis
    by (intro conjI c e l)
qed

text \<open>
  C4, as the code has it. With immediate logging the request is logged when only the
  start of the request has been recorded: the response carries no start time, no
  listener for the headers is registered, and the \<^verbatim>\<open>response-time\<close> token is absent at
  the trigger.
\<close>

theorem immediate_response_time_absent:
  assumes "truthy (immediate mw)" "arrival now req res = (req', res')"
  shows "req_startAt req' = Some (hrtime now) \<and> res_startAt res' = None
    \<and> getResponseTimeToken req' res' digits = Returns JUndefined
    \<and> logger mw tokens now req res
      = and_then (logRequest mw tokens req' res') (\<lambda>calls.
          Returns \<lparr>ex_req = req', ex_res = res', ex_inserts = calls,
                   ex_onHeaders = False, ex_onFinished = False\<rparr>)"
proof -
  from assms(2) have r: "req_startAt req' = Some (hrtime now)" "res_startAt res' = None"
    by (auto simp: arrival_def recordStartTime_req_def Let_def)
  then have "getResponseTimeToken req' res' digits = Returns JUndefined"
    by (simp add: getResponseTimeToken_def)
  with r assms show ?thesis
    by (simp add: logger_def)
qed

theorem immediate_response_time_absent_witness:
  "truthy (immediate immediate_middleware)
   \<and> arrival t0 foo_request foo_response
     = (foo_request_finished, snd (arrival t0 foo_request foo_response))
   \<and> req_startAt foo_request_finished = Some (100, 999000000)
   \<and> res_startAt (snd (arrival t0 foo_request foo_response)) = None
   \<and> getResponseTimeToken foo_request_finished (snd (arrival t0 foo_request foo_response)) None
     = Returns JUndefined"
proof -
  have i: "truthy (immediate immediate_middleware)"
    by (simp add: immediate_middleware_def)
  have a: "arrival t0 foo_request foo_response
     = (foo_request_finished, snd (arrival t0 foo_request foo_response))"
    by (simp add: foo_request_finished_def)
  show ?thesis
    using immediate_response_time_absent [OF i a, of None scenario_registry] i a
    by (simp add: t0_def)
qed

text \<open>
  C4 as stated fails: the scenario's request, logged by an immediate middleware, is
  inserted with an absent \<^verbatim>\<open>response-time\<close>, and the response has no start time.
\<close>

theorem immediate_second_capture_counterexample:
  "expressMongo (Fmt (JString '':method :response-time'')) immediate_options scenario_registry
     = Returns (immediate_middleware, scenario_registry(''options'' \<mapsto> immediate_options))
   \<and> truthy (immediate immediate_middleware)
   \<and> logger immediate_middleware scenario_registry t0 foo_request foo_response
     = Returns \<lparr>ex_req = foo_request_finished,
                ex_res = foo_response\<lparr>res_startAt := None, res_startTime := None\<rparr>,
                ex_inserts = [(JString ''mongodb://localhost:27017'', JString ''logs'',
                  JString ''requests'',
                  [JObject [(''method'', JString ''GET''), (''response-time'', JUndefined)]])],
                ex_onHeaders = False, ex_onFinished = False\<rparr>"
proof -
  have c: "compile (JString '':method :response-time'')
    = Returns (JBuilder [(''method'', ''method'', None), (''response-time'', ''response-time'', None)])"
    by (simp add: compile_def compile_js_def new_Function_def escape_quotes_def function_head_def
        replacement_def JSON_stringify_def json_escape_def is_name_char_def word_chars_def
        match_arg_def read_string_def parse_property_def plain_char_def is_js_space_def)
  have g: "get scenario_registry '':method :response-time'' = JUndefined"
    "get scenario_registry ''method'' = JNative getMethodToken"
    "get scenario_registry ''response-time'' = JNative getResponseTimeToken"
    by (simp_all add: get_def scenario_registry_def module_registry_def)
  have e: "expressMongo (Fmt (JString '':method :response-time'')) immediate_options scenario_registry
     = Returns (immediate_middleware, scenario_registry(''options'' \<mapsto> immediate_options))"
    by (simp add: expressMongo_def getFormatFunction_def g or_else_def c assign_def
        readonly_properties_def immediate_middleware_def) (simp add: immediate_options_def)
  have l: "logger immediate_middleware scenario_registry t0 foo_request foo_response
     = Returns \<lparr>ex_req = foo_request_finished,
                ex_res = foo_response\<lparr>res_startAt := None, res_startTime := None\<rparr>,
                ex_inserts = [(JString ''mongodb://localhost:27017'', JString ''logs'',
                  JString ''requests'',
                  [JObject [(''method'', JString ''GET''), (''response-time'', JUndefined)]])],
                ex_onHeaders = False, ex_onFinished = False\<rparr>"
    by (simp add: logger_def arrival_def Let_def logRequest_def immediate_middleware_def
        foo_request_finished_def call_token_def g getMethodToken_def getResponseTimeToken_def
        recordStartTime_req_def immediate_options_def foo_request_def)
  show ?thesis
    by (intro conjI e l) (simp add: immediate_middleware_def)
qed

text \<open>
  C5, as the code has it. The record is keyed by the name of each placeholder alone, a
  name being made of letters, digits, underscores and hyphens: a placeholder
  \<^verbatim>\<open>:name[arg]\<close> yields the key \<^verbatim>\<open>name\<close>, and no key holds a bracket.
\<close>

theorem record_keys_are_names:
  assumes "simple_template t" "t \<noteq> []"
    and "and_then (compile (JString t)) (\<lambda>b. call_format b tokens req res) = Returns (JObject obj)"
  shows "fst ` set obj = fst ` set (template_placeholders t)
    \<and> (\<forall>k \<in> fst ` set obj. list_all is_name_char k \<and> CHR ''['' \<notin> set k)
    \<and> (\<forall>n a. (n, Some a) \<in> set (template_placeholders t) \<longrightarrow>
          n \<in> fst ` set obj \<and> n @ ''['' @ a @ '']'' \<notin> fst ` set obj)"
proof -
  from assms have e: "eval_properties tokens req res (map property_of (template_placeholders t)) []
      = Returns (JObject obj)"
    by (simp add: compile_simple)
  from builder_record [OF eval_properties_returns [OF e]] obtain obj' where
    o: "eval_properties tokens req res (map property_of (template_placeholders t)) [] = Returns (JObject obj')
    \<and> fst ` set obj' = fst ` set (template_placeholders t)
    \<and> distinct (map fst obj')
    \<and> (\<forall>n. map_of obj' n
          = (case last_arg n (template_placeholders t) of
               None \<Rightarrow> None
             | Some a \<Rightarrow> (case call_token tokens req res n a of
                           Some (Inr v) \<Rightarrow> Some v | _ \<Rightarrow> None)))"
    ..
  from o e have "obj' = obj"
    by simp
  with o have k: "fst ` set obj = fst ` set (template_placeholders t)"
    by simp
  have names: "list_all is_name_char n \<and> CHR ''['' \<notin> set n" if "n \<in> fst ` set obj" for n
  proof -
    from that k obtain a where "(n, a) \<in> set (template_placeholders t)"
      by force
    then have "list_all is_name_char n"
      by (rule template_placeholder_name)
    then show ?thesis
      by (simp add: name_no_bracket)
  qed
  have "n \<in> fst ` set obj \<and> n @ ''['' @ a @ '']'' \<notin> fst ` set obj"
    if "(n, Some a) \<in> set (template_placeholders t)" for n a
  proof
    show "n \<in> fst ` set obj"
      using that k by force
    show "n @ ''['' @ a @ '']'' \<notin> fst ` set obj"
      using names [of "n @ ''['' @ a @ '']''"] by auto
  qed
  with k names show ?thesis
    by blast
qed

theorem record_keys_are_names_witness:
  "simple_template tiny_format \<and> tiny_format \<noteq> []
   \<and> and_then (compile (JString tiny_format))
        (\<lambda>b. call_format b scenario_registry foo_request_finished foo_response_finished)
      = Returns (JObject tiny_record)
   \<and> fst ` set tiny_record = {''method'', ''url'', ''status'', ''res'', ''response-time''}
   \<and> (''res'', Some ''content-length'') \<in> set (template_placeholders tiny_format)
   \<and> ''res[content-length]'' \<notin> fst ` set tiny_record"
proof -
  have n: "tiny_format \<noteq> []"
    by (simp add: tiny_format_def)
  have c: "compile (JString tiny_format) = Returns tiny_builder"
    using compile_simple [OF tiny_simple n] by (simp add: tiny_placeholders tiny_builder_def)
  have e: "and_then (compile (JString tiny_format))
        (\<lambda>b. call_format b scenario_registry foo_request_finished foo_response_finished)
      = Returns (JObject tiny_record)"
    by (simp add: c) (simp add: tiny_builder_def tiny_record_def scenario_tokens)
  have m: "(''res'', Some ''content-length'') \<in> set (template_placeholders tiny_format)"
    by (simp add: tiny_placeholders)
  from record_keys_are_names [OF tiny_simple n e]
  have k: "fst ` set tiny_record = fst ` set (template_placeholders tiny_format)"
    and b: "''res'' @ ''['' @ ''content-length'' @ '']'' \<notin> fst ` set tiny_record"
    using m by blast+
  from k have k': "fst ` set tiny_record = {''method'', ''url'', ''status'', ''res'', ''response-time''}"
    by (simp add: tiny_placeholders insert_commute)
  from b have b': "''res[content-length]'' \<notin> fst ` set tiny_record"
    by simp
  show ?thesis
    by (intro conjI tiny_simple n e k' m b')
qed

text \<open>
  C5 as stated fails: in the scenario the \<^verbatim>\<open>tiny\<close> format yields a record with the key
  \<^verbatim>\<open>res\<close> and without the key \<^verbatim>\<open>res[content-length]\<close>.
\<close>

theorem tiny_keys_counterexample:
  "getFormatFunction scenario_registry (JString ''tiny'') = Returns tiny_builder
   \<and> call_format tiny_builder scenario_registry foo_request_finished foo_response_finished
     = Returns (JObject tiny_record)
   \<and> map fst tiny_record = [''method'', ''url'', ''status'', ''res'', ''response-time'']
   \<and> map_of tiny_record ''res'' = Some (JString ''5'')
   \<and> map_of tiny_record ''res[content-length]'' = None"
proof -
  have n: "tiny_format \<noteq> []"
    by (simp add: tiny_format_def)
  have c: "compile (JString tiny_format) = Returns tiny_builder"
    using compile_simple [OF tiny_simple n] by (simp add: tiny_placeholders tiny_builder_def)
  have g: "getFormatFunction scenario_registry (JString ''tiny'') = Returns tiny_builder"
    by (simp add: getFormatFunction_def get_def scenario_registry_def module_registry_def
        or_else_def c) (simp add: tiny_format_def)
  have e: "call_format tiny_builder scenario_registry foo_request_finished foo_response_finished
     = Returns (JObject tiny_record)"
    by (simp add: tiny_builder_def tiny_record_def scenario_tokens)
  show ?thesis
    by (intro conjI g e) (simp_all add: tiny_record_def)
qed




text \<open>
  C7. \<open>compile\<close> throws a \<open>TypeError\<close> for every argument that is not a string: the
  error is the outcome of \<open>compile\<close> itself, and no builder is returned that could fail
  later, when a request is logged.
\<close>

theorem compile_not_a_string:
  "\<not> is_string v \<Longrightarrow> compile v = Throws (TypeError ''argument format must be a string'')"
  by (cases v) (simp_all add: compile_def)

theorem compile_not_a_string_witness:
  "\<not> is_string (JNumber 42)
   \<and> compile (JNumber 42) = Throws (TypeError ''argument format must be a string'')"
  using compile_not_a_string [of "JNumber 42"] by simp

text \<open>
  C8, as the code has it. \<open>token\<close> and \<open>format\<close> are the same assignment to the same
  object. For a name other than \<^verbatim>\<open>name\<close>, \<^verbatim>\<open>length\<close>, \<^verbatim>\<open>caller\<close>, \<^verbatim>\<open>arguments\<close> and
  \<^verbatim>\<open>__proto__\<close>, a format defined under the name of a token replaces the token, a token
  registered under the name of a format replaces the format, and \<open>getFormatFunction\<close> at
  the name of a token returns its resolver. Under the first four names both operations
  throw a \<open>TypeError\<close>, and under \<^verbatim>\<open>__proto__\<close> a format string is ignored.
\<close>

theorem token_format_one_mapping:
  "token name v reg = format name v reg
   \<and> (name \<notin> set function_properties \<longrightarrow>
        and_then (token name fn reg) (format name fmt) = Returns (reg(name \<mapsto> fmt))
        \<and> and_then (format name fmt reg) (token name fn) = Returns (reg(name \<mapsto> fn))
        \<and> (is_function fn \<longrightarrow>
             and_then (token name fn reg) (\<lambda>reg'. getFormatFunction reg' (JString name))
             = Returns fn))
   \<and> (name \<in> set readonly_properties \<longrightarrow>
        token name fn reg = Throws (TypeError ''Cannot assign to read only property'')
        \<and> format name fmt reg = Throws (TypeError ''Cannot assign to read only property''))
   \<and> (is_primitive fmt \<longrightarrow> format ''__proto__'' fmt reg = Returns reg)"
proof -
  have truthy: "is_function fn \<Longrightarrow> truthy fn"
    by (cases fn) simp_all
  have 1: "token name v reg = format name v reg"
    by (simp add: token_def format_def)
  have 2: "name \<notin> set function_properties \<longrightarrow>
        and_then (token name fn reg) (format name fmt) = Returns (reg(name \<mapsto> fmt))
        \<and> and_then (format name fmt reg) (token name fn) = Returns (reg(name \<mapsto> fn))
        \<and> (is_function fn \<longrightarrow>
             and_then (token name fn reg) (\<lambda>reg'. getFormatFunction reg' (JString name))
             = Returns fn)"
    by (simp add: token_def format_def assign_def function_properties_def
        getFormatFunction_def get_def or_else_def truthy)
  have 3: "name \<in> set readonly_properties \<longrightarrow>
        token name fn reg = Throws (TypeError ''Cannot assign to read only property'')
        \<and> format name fmt reg = Throws (TypeError ''Cannot assign to read only property'')"
    by (simp add: token_def format_def assign_def)
  have 4: "is_primitive fmt \<longrightarrow> format ''__proto__'' fmt reg = Returns reg"
    by (simp add: format_def assign_def readonly_properties_def)
  show ?thesis
    by (intro conjI 1 2 3 4)
qed

theorem token_format_one_mapping_witness:
  "token ''tiny'' (JNative getMethodToken) scenario_registry
     = format ''tiny'' (JNative getMethodToken) scenario_registry
   \<and> ''tiny'' \<notin> set function_properties
   \<and> get scenario_registry ''tiny'' = JString tiny_format
   \<and> and_then (token ''tiny'' (JNative getMethodToken) scenario_registry)
        (\<lambda>reg'. getFormatFunction reg' (JString ''tiny''))
      = Returns (JNative getMethodToken)
   \<and> and_then (token ''url'' (JNative getMethodToken) scenario_registry)
        (format ''url'' (JString tiny_format))
      = Returns (scenario_registry(''url'' \<mapsto> JString tiny_format))
   \<and> ''length'' \<in> set readonly_properties
   \<and> token ''length'' (JNative getMethodToken) scenario_registry
      = Throws (TypeError ''Cannot assign to read only property'')"
proof -
  have g: "get scenario_registry ''tiny'' = JString tiny_format"
    by (simp add: get_def scenario_registry_def module_registry_def)
  have n: "''tiny'' \<notin> set function_properties" "''url'' \<notin> set function_properties"
    by (simp_all add: function_properties_def readonly_properties_def)
  have r: "''length'' \<in> set readonly_properties"
    by (simp add: readonly_properties_def)
  note tiny = token_format_one_mapping [of "''tiny''" "JNative getMethodToken" scenario_registry
      "JNative getMethodToken" "JString tiny_format"]
  note url = token_format_one_mapping [of "''url''" "JNative getMethodToken" scenario_registry
      "JNative getMethodToken" "JString tiny_format"]
  note len = token_format_one_mapping [of "''length''" "JNative getMethodToken" scenario_registry
      "JNative getMethodToken" "JString tiny_format"]
  have 1: "token ''tiny'' (JNative getMethodToken) scenario_registry
      = format ''tiny'' (JNative getMethodToken) scenario_registry"
    by (rule tiny [THEN conjunct1])
  have 2: "and_then (token ''tiny'' (JNative getMethodToken) scenario_registry)
        (\<lambda>reg'. getFormatFunction reg' (JString ''tiny''))
      = Returns (JNative getMethodToken)"
    using tiny [THEN conjunct2, THEN conjunct1] n(1) by simp
  have 3: "and_then (token ''url'' (JNative getMethodToken) scenario_registry)
        (format ''url'' (JString tiny_format))
      = Returns (scenario_registry(''url'' \<mapsto> JString tiny_format))"
    using url [THEN conjunct2, THEN conjunct1] n(2) by simp
  have 4: "token ''length'' (JNative getMethodToken) scenario_registry
      = Throws (TypeError ''Cannot assign to read only property'')"
    using len [THEN conjunct2, THEN conjunct2, THEN conjunct1] r by simp
  show ?thesis
    by (intro conjI 1 n(1) g 2 3 r 4)
qed

text \<open>
  C8 as stated fails: no format can be defined under \<^verbatim>\<open>name\<close>, where the assignment
  throws, and a format string defined under \<^verbatim>\<open>__proto__\<close> leaves the lookup of that name as
  it was.
\<close>

theorem reserved_name_counterexample:
  "format ''name'' (JString tiny_format) scenario_registry
     = Throws (TypeError ''Cannot assign to read only property'')
   \<and> token ''name'' (JNative getMethodToken) scenario_registry
     = Throws (TypeError ''Cannot assign to read only property'')
   \<and> format ''__proto__'' (JString tiny_format) scenario_registry = Returns scenario_registry
   \<and> get scenario_registry ''__proto__'' = JNative inherited_function"
  by (simp add: format_def token_def assign_def readonly_properties_def get_def
      scenario_registry_def module_registry_def)



text \<open>
  C10. \<open>retrieveDB\<close> takes its target from the property \<^verbatim>\<open>options\<close> of the registry object
  and from nowhere else. A call of \<open>expressMongo\<close> that returns a middleware stores its
  options argument there as given and changes nothing else; so after two such calls
  \<open>retrieveDB\<close> queries the target of the second, and throws when the second was given
  no options.
\<close>

theorem retrieveDB_last_options:
  "retrieveDB reg q
     = (if is_nullish (get reg ''options'') then Throws (TypeError ''opts is undefined'')
        else Returns (field (get reg ''options'') ''url'', field (get reg ''options'') ''db'',
                      field (get reg ''options'') ''collection'', q))
   \<and> (expressMongo f o1 reg = Returns (mw, reg1) \<longrightarrow> reg1 = reg(''options'' \<mapsto> o1))
   \<and> (expressMongo f o1 reg = Returns (mw, reg1) \<and> expressMongo f' o2 reg1 = Returns (mw', reg2) \<longrightarrow>
        retrieveDB reg2 q
        = (if is_nullish o2 then Throws (TypeError ''opts is undefined'')
           else Returns (field o2 ''url'', field o2 ''db'', field o2 ''collection'', q)))
   \<and> (expressMongo f o1 reg = Returns (mw, reg1) \<and> expressMongo f' JUndefined reg1 = Returns (mw', reg2) \<longrightarrow>
        retrieveDB reg2 q = Throws (TypeError ''opts is undefined''))"
proof -
  have stored: "reg' = r(''options'' \<mapsto> v)" if "expressMongo g v r = Returns (m, reg')" for g v r m reg'
    using that
    by (auto simp: expressMongo_def Let_def and_then_def assign_def function_properties_def readonly_properties_def
        split: option.splits sum.splits if_splits)
  have read: "retrieveDB (r(''options'' \<mapsto> v)) q
      = (if is_nullish v then Throws (TypeError ''opts is undefined'')
         else Returns (field v ''url'', field v ''db'', field v ''collection'', q))" for r v
    by (simp add: retrieveDB_def get_def)
  have last: "retrieveDB r2 q
      = (if is_nullish v then Throws (TypeError ''opts is undefined'')
         else Returns (field v ''url'', field v ''db'', field v ''collection'', q))"
    if "expressMongo g v r = Returns (m, r2)" for g v r m r2
    using stored [OF that] read by simp
  have 1: "retrieveDB reg q
     = (if is_nullish (get reg ''options'') then Throws (TypeError ''opts is undefined'')
        else Returns (field (get reg ''options'') ''url'', field (get reg ''options'') ''db'',
                      field (get reg ''options'') ''collection'', q))"
    by (simp add: retrieveDB_def Let_def)
  have 2: "expressMongo f o1 reg = Returns (mw, reg1) \<longrightarrow> reg1 = reg(''options'' \<mapsto> o1)"
    using stored by blast
  have 3: "expressMongo f o1 reg = Returns (mw, reg1) \<and> expressMongo f' o2 reg1 = Returns (mw', reg2) \<longrightarrow>
        retrieveDB reg2 q
        = (if is_nullish o2 then Throws (TypeError ''opts is undefined'')
           else Returns (field o2 ''url'', field o2 ''db'', field o2 ''collection'', q))"
    using last by blast
  have 4: "expressMongo f o1 reg = Returns (mw, reg1) \<and> expressMongo f' JUndefined reg1 = Returns (mw', reg2) \<longrightarrow>
        retrieveDB reg2 q = Throws (TypeError ''opts is undefined'')"
    using last [of f' JUndefined reg1 mw' reg2] by simp
  show ?thesis
    by (intro conjI 1 2 3 4)
qed

theorem retrieveDB_last_options_witness:
  "and_then (expressMongo (FmtFunction null_line) foo_options scenario_registry) (\<lambda>(mw, reg1).
     and_then (expressMongo (FmtFunction null_line) other_options reg1) (\<lambda>(mw', reg2).
       retrieveDB reg2 (JObject [])))
   = Returns (JString ''mongodb://db.example:27017'', JString ''audit'', JString ''hits'', JObject [])
   \<and> and_then (expressMongo (FmtFunction null_line) foo_options scenario_registry) (\<lambda>(mw, reg1).
     and_then (expressMongo (FmtFunction null_line) JUndefined reg1) (\<lambda>(mw', reg2).
       retrieveDB reg2 (JObject [])))
   = Throws (TypeError ''opts is undefined'')"
proof -
  obtain mw reg1 where 1: "expressMongo (FmtFunction null_line) foo_options scenario_registry = Returns (mw, reg1)"
    by (simp add: expressMongo_def Let_def assign_def function_properties_def readonly_properties_def)
  obtain mw' reg2 where 2: "expressMongo (FmtFunction null_line) other_options reg1 = Returns (mw', reg2)"
    by (simp add: expressMongo_def Let_def assign_def function_properties_def readonly_properties_def)
  obtain mw'' reg3 where 3: "expressMongo (FmtFunction null_line) JUndefined reg1 = Returns (mw'', reg3)"
    by (simp add: expressMongo_def Let_def assign_def function_properties_def readonly_properties_def)
  have a: "retrieveDB reg2 (JObject [])
     = Returns (JString ''mongodb://db.example:27017'', JString ''audit'', JString ''hits'', JObject [])"
    using retrieveDB_last_options [where reg = scenario_registry and q = "JObject []"
        and f = "FmtFunction null_line" and ?o1.0 = foo_options and mw = mw and ?reg1.0 = reg1
        and f' = "FmtFunction null_line" and ?o2.0 = other_options and mw' = mw'
        and ?reg2.0 = reg2] 1 2
    by (simp add: other_options_def)
  have b: "retrieveDB reg3 (JObject []) = Throws (TypeError ''opts is undefined'')"
    using retrieveDB_last_options [where reg = scenario_registry and q = "JObject []"
        and f = "FmtFunction null_line" and ?o1.0 = foo_options and mw = mw and ?reg1.0 = reg1
        and f' = "FmtFunction null_line" and ?o2.0 = JUndefined and mw' = mw''
        and ?reg2.0 = reg3] 1 3
    by simp
  show ?thesis
    by (simp add: 1 2 3 a b)
qed

end
